theory Spec2Isabelle
  imports Main "HOL-Library.Sublist"
begin

section \<open>Values, exceptions and the HTTP environment\<close>

text \<open>
  The agent of \<^verbatim>\<open>src/app.py\<close> handles JSON values throughout: tool arguments, chat
  messages, payloads and hospital records are the dicts, lists, strings and numbers of
  Python's \<^verbatim>\<open>json\<close> module. A dict is an association list, since Python dicts keep
  their insertion order and that order is visible in the bundle and in the payload.
  \<open>JNull\<close> is Python's \<^verbatim>\<open>None\<close>. Floating-point numbers are left out.
\<close>

datatype json =
    JNull
  | JBool bool
  | JInt int
  | JStr string
  | JList "json list"
  | JDict "(string \<times> json) list"

text \<open>
  An exception in flight. The source distinguishes exactly two classes in its
  \<^verbatim>\<open>except\<close> clauses: \<^verbatim>\<open>requests.exceptions.RequestException\<close> (with its
  subclasses: connection errors, timeouts, \<^verbatim>\<open>HTTPError\<close>, undecodable bodies) and
  everything else. The string is \<^verbatim>\<open>str(e)\<close>.
\<close>

datatype raised = RequestException string | OtherException string

text \<open>
  One outbound call of the \<^verbatim>\<open>requests\<close> library. \<open>params\<close> and \<open>json_body\<close> are the
  keyword arguments \<^verbatim>\<open>params=\<close> and \<^verbatim>\<open>json=\<close> (\<open>JNull\<close> when absent or
  \<^verbatim>\<open>None\<close>); \<open>data\<close> is the argument \<^verbatim>\<open>data=json.dumps(payload)\<close> of the calls to
  the LLM backend, kept as the value that is serialised.
\<close>

record request =
  http_method :: string
  url :: string
  params :: json
  json_body :: json
  data :: json
  headers :: "(string \<times> string) list"

text \<open>
  What the source does with a response object: \<^verbatim>\<open>raise_for_status()\<close>, which raises
  an \<^verbatim>\<open>HTTPError\<close> for an error status (\<open>http_error\<close> holds its text then), and
  \<^verbatim>\<open>json()\<close>, which returns the decoded body or raises.
\<close>

record http_response =
  http_error :: "string option"
  json_result :: "raised + json"

text \<open>
  The world outside the process: the remote servers answer a request depending on the
  requests made so far, and the functions of Python's standard library that the model
  does not spell out (\<^verbatim>\<open>json.loads\<close>, \<^verbatim>\<open>json.dumps\<close>, the \<^verbatim>\<open>repr\<close> of
  containers) are taken as given.
\<close>

record env =
  respond :: "request list \<Rightarrow> request \<Rightarrow> raised + http_response"
  loads :: "string \<Rightarrow> json option"
  dumps :: "json \<Rightarrow> string"
  dumps_indent2 :: "json \<Rightarrow> string"
  repr :: "json \<Rightarrow> string"

text \<open>
  A computation that may perform HTTP calls: it takes the log of the requests made so
  far and returns the extended log with either a value or the exception it raised.
\<close>

type_synonym 'a io = "request list \<Rightarrow> (raised + 'a) \<times> request list"

definition io_bind :: "'a io \<Rightarrow> ('a \<Rightarrow> 'b io) \<Rightarrow> 'b io" where
  "io_bind m f log =
     (case m log of
        (Inl x, log') \<Rightarrow> (Inl x, log')
      | (Inr v, log') \<Rightarrow> f v log')"

definition io_pure :: "raised + 'a \<Rightarrow> 'a io" where
  "io_pure r log = (r, log)"

definition http_send :: "env \<Rightarrow> request \<Rightarrow> http_response io" where
  "http_send e r log = (respond e log r, log @ [r])"

definition raise_for_status :: "http_response \<Rightarrow> raised + unit" where
  "raise_for_status r =
     (case http_error r of
        Some m \<Rightarrow> Inl (RequestException m)
      | None \<Rightarrow> Inr ())"

text \<open>
  The three steps both backends are called with: send, \<^verbatim>\<open>raise_for_status()\<close>,
  \<^verbatim>\<open>json()\<close>.
\<close>

definition fetch_json :: "env \<Rightarrow> request \<Rightarrow> json io" where
  "fetch_json e r =
     io_bind (http_send e r) (\<lambda>resp.
       io_pure (case raise_for_status resp of
                  Inl x \<Rightarrow> Inl x
                | Inr u \<Rightarrow> json_result resp))"

section \<open>Python built-ins used by the source\<close>

definition dict_get :: "(string \<times> json) list \<Rightarrow> string \<Rightarrow> json" where
  "dict_get d k = (case map_of d k of None \<Rightarrow> JNull | Some v \<Rightarrow> v)"

definition dict_set :: "(string \<times> json) list \<Rightarrow> string \<Rightarrow> json \<Rightarrow> (string \<times> json) list" where
  "dict_set d k v =
     (if k \<in> set (map fst d) then map (\<lambda>(k', v'). if k' = k then (k', v) else (k', v')) d
      else d @ [(k, v)])"

text \<open>\<^verbatim>\<open>x.get(k)\<close>: only a dict has the method.\<close>

definition py_get :: "json \<Rightarrow> string \<Rightarrow> raised + json" where
  "py_get x k =
     (case x of
        JDict d \<Rightarrow> Inr (dict_get d k)
      | _ \<Rightarrow> Inl (OtherException ''AttributeError''))"

text \<open>\<^verbatim>\<open>x[k]\<close> with a string key.\<close>

definition py_item :: "json \<Rightarrow> string \<Rightarrow> raised + json" where
  "py_item x k =
     (case x of
        JDict d \<Rightarrow> (case map_of d k of
                     None \<Rightarrow> Inl (OtherException ''KeyError'')
                   | Some v \<Rightarrow> Inr v)
      | _ \<Rightarrow> Inl (OtherException ''TypeError''))"

text \<open>\<^verbatim>\<open>x[0]\<close>.\<close>

definition py_first :: "json \<Rightarrow> raised + json" where
  "py_first x =
     (case x of
        JList [] \<Rightarrow> Inl (OtherException ''IndexError'')
      | JList (v # vs) \<Rightarrow> Inr v
      | JStr [] \<Rightarrow> Inl (OtherException ''IndexError'')
      | JStr (c # cs) \<Rightarrow> Inr (JStr [c])
      | JDict d \<Rightarrow> Inl (OtherException ''KeyError'')
      | _ \<Rightarrow> Inl (OtherException ''TypeError''))"

text \<open>Truth value of an object in a condition.\<close>

definition py_truthy :: "json \<Rightarrow> bool" where
  "py_truthy x =
     (case x of
        JNull \<Rightarrow> False
      | JBool b \<Rightarrow> b
      | JInt i \<Rightarrow> i \<noteq> 0
      | JStr s \<Rightarrow> s \<noteq> []
      | JList l \<Rightarrow> l \<noteq> []
      | JDict d \<Rightarrow> d \<noteq> [])"

text \<open>What a \<^verbatim>\<open>for\<close> loop iterates over.\<close>

definition py_iter :: "json \<Rightarrow> raised + json list" where
  "py_iter x =
     (case x of
        JList l \<Rightarrow> Inr l
      | JStr s \<Rightarrow> Inr (map (\<lambda>c. JStr [c]) s)
      | JDict d \<Rightarrow> Inr (map (\<lambda>kv. JStr (fst kv)) d)
      | _ \<Rightarrow> Inl (OtherException ''TypeError''))"

fun str_nat :: "nat \<Rightarrow> string" where
  "str_nat n =
     (if n < 10 then [''0123456789'' ! n]
      else str_nat (n div 10) @ [''0123456789'' ! (n mod 10)])"

declare str_nat.simps [simp del]

definition str_int :: "int \<Rightarrow> string" where
  "str_int i = (if i < 0 then ''-'' @ str_nat (nat (- i)) else str_nat (nat i))"

text \<open>
  \<^verbatim>\<open>str(x)\<close>, as an f-string applies it to a value it interpolates. A string is
  itself; a list or dict is printed by its \<^verbatim>\<open>repr\<close>.
\<close>

definition py_str :: "env \<Rightarrow> json \<Rightarrow> string" where
  "py_str e x =
     (case x of
        JNull \<Rightarrow> ''None''
      | JBool b \<Rightarrow> (if b then ''True'' else ''False'')
      | JInt i \<Rightarrow> str_int i
      | JStr s \<Rightarrow> s
      | _ \<Rightarrow> repr e x)"

text \<open>\<^verbatim>\<open>sub in s\<close> on strings: \<open>sub\<close> occurs in \<open>s\<close> as a contiguous piece.\<close>

fun str_in :: "string \<Rightarrow> string \<Rightarrow> bool" where
  "str_in sub [] = (sub = [])"
| "str_in sub (c # cs) = (prefix sub (c # cs) \<or> str_in sub cs)"

text \<open>
  \<^verbatim>\<open>s.lower()\<close>. The message is modelled as ASCII text: the letters A to Z are
  mapped to a to z and every other character is left as it is.
\<close>

definition lower_char :: "char \<Rightarrow> char" where
  "lower_char c =
     (case map_of (zip ''ABCDEFGHIJKLMNOPQRSTUVWXYZ'' ''abcdefghijklmnopqrstuvwxyz'') c of
        None \<Rightarrow> c
      | Some l \<Rightarrow> l)"

definition lower :: "string \<Rightarrow> string" where
  "lower s = map lower_char s"

text \<open>\<^verbatim>\<open>any(word in text for word in words)\<close>.\<close>

definition any_in :: "string list \<Rightarrow> string \<Rightarrow> bool" where
  "any_in words txt = list_ex (\<lambda>word. str_in word txt) words"

section \<open>The agent and its tool catalog\<close>

record agent =
  openrouter_api_key :: string
  hospital_base_url :: string
  openrouter_url :: string
  model :: string
  use_function_calling :: bool
  tools :: "json list"

definition param :: "string \<Rightarrow> string \<Rightarrow> string \<Rightarrow> string \<times> json" where
  "param name ty description =
     (name, JDict [(''type'', JStr ty), (''description'', JStr description)])"

definition param_default :: "string \<Rightarrow> string \<Rightarrow> string \<Rightarrow> json \<Rightarrow> string \<times> json" where
  "param_default name ty description dflt =
     (name, JDict [(''type'', JStr ty), (''description'', JStr description), (''default'', dflt)])"

text \<open>
  One entry of the catalog; \<open>required\<close> is \<open>None\<close> where the source's schema has no
  \<^verbatim>\<open>"required"\<close> key.
\<close>

definition tool :: "string \<Rightarrow> string \<Rightarrow> (string \<times> json) list \<Rightarrow> string list option \<Rightarrow> json" where
  "tool name description properties required =
     JDict [(''type'', JStr ''function''),
            (''function'', JDict
               [(''name'', JStr name),
                (''description'', JStr description),
                (''parameters'', JDict
                   ([(''type'', JStr ''object''), (''properties'', JDict properties)] @
                    (case required of
                       None \<Rightarrow> []
                     | Some r \<Rightarrow> [(''required'', JList (map JStr r))])))])]"

definition define_hospital_tools :: "json list" where
  "define_hospital_tools =
    [tool ''get_all_patients''
       ''Get all patients with optional filtering by ward, status, or risk level''
       [param ''ward'' ''string'' (''Filter by ward (e.g., '' @ [CHR 0x27] @ ''Cardiology'' @ [CHR 0x27] @ '')''),
        param ''status'' ''string'' ''Filter by current status (stable, critical, improving, deteriorating)'',
        param ''risk_level'' ''string'' ''Filter by risk level (Low, Moderate, High, Critical)'']
       None,
     tool ''get_patient''
       (''Get a specific patient'' @ [CHR 0x27] @ ''s complete record'')
       [param ''patient_id'' ''string'' ''The patient ID'']
       (Some [''patient_id'']),
     tool ''create_patient''
       ''Create a new patient record''
       [param ''patient_data'' ''object'' ''Patient data object'']
       (Some [''patient_data'']),
     tool ''update_patient''
       (''Update a patient'' @ [CHR 0x27] @ ''s complete record'')
       [param ''patient_id'' ''string'' ''The patient ID'',
        param ''patient_data'' ''object'' ''Updated patient data'']
       (Some [''patient_id'', ''patient_data'']),
     tool ''get_patient_vitals''
       (''Get patient'' @ [CHR 0x27] @ ''s vital signs history'')
       [param ''patient_id'' ''string'' ''The patient ID'',
        param ''start_time'' ''string'' ''Start time filter'',
        param ''end_time'' ''string'' ''End time filter'',
        param_default ''limit'' ''integer'' ''Limit number of results'' (JInt 10)]
       (Some [''patient_id'']),
     tool ''get_patient_treatments''
       (''Get patient'' @ [CHR 0x27] @ ''s treatment history'')
       [param ''patient_id'' ''string'' ''The patient ID'',
        param ''status'' ''string'' ''Filter by treatment status'']
       (Some [''patient_id'']),
     tool ''predict_patient_risk''
       ''Predict risk level for a patient''
       [param ''patient_id'' ''string'' ''The patient ID'']
       (Some [''patient_id'']),
     tool ''get_current_alerts''
       ''Get current active alerts''
       []
       None,
     tool ''get_all_staff''
       ''List all staff members with optional filters''
       [param ''role'' ''string'' ''Filter by staff role'',
        param ''department'' ''string'' ''Filter by department'',
        param ''onDuty'' ''boolean'' ''Filter by duty status'']
       None,
     tool ''get_staff''
       ''Get staff member details by ID''
       [param ''staff_id'' ''string'' ''The staff ID'']
       (Some [''staff_id'']),
     tool ''get_staff_schedule''
       ''Get staff schedule for a date range''
       [param ''staff_id'' ''string'' ''The staff ID'',
        param ''start_date'' ''string'' ''Start date in YYYY-MM-DD format'',
        param ''end_date'' ''string'' ''End date in YYYY-MM-DD format'']
       (Some [''staff_id'', ''start_date'']),
     tool ''get_all_iot_devices''
       ''Get all IoT devices and their vitals''
       []
       None,
     tool ''get_device_data''
       ''Get all sensor data for a specific device''
       [param ''device_id'' ''string'' ''The device ID'']
       (Some [''device_id'']),
     tool ''get_latest_vitals''
       ''Get the most recent vitals reading for current patient on a device''
       [param ''device_id'' ''string'' ''The device ID'']
       (Some [''device_id'']),
     tool ''detect_anomaly''
       ''Detect anomalies for a specific monitor''
       [param ''monitor_id'' ''string'' ''The monitor ID'']
       (Some [''monitor_id'']),
     tool ''get_all_anomalies''
       ''Get all anomalies across all devices''
       [param_default ''hours'' ''integer'' ''Hours to look back'' (JInt 24),
        param ''severity_filter'' ''string'' ''Filter by severity'']
       None,
     tool ''get_all_rooms''
       ''Get all rooms''
       []
       None,
     tool ''get_room''
       ''Get a specific room by ID''
       [param ''room_id'' ''string'' ''The room ID'']
       (Some [''room_id'']),
     tool ''assign_patient_to_room''
       ''Assign a patient to a room''
       [param ''room_id'' ''string'' ''The room ID'',
        param ''patient_id'' ''string'' ''The patient ID'']
       (Some [''room_id'', ''patient_id'']),
     tool ''get_all_beds''
       ''Get all beds''
       []
       None,
     tool ''get_bed''
       ''Get a specific bed by ID''
       [param ''bed_id'' ''string'' ''The bed ID'']
       (Some [''bed_id'']),
     tool ''assign_patient_to_bed''
       ''Assign a patient to a specific bed''
       [param ''bed_id'' ''string'' ''The bed ID'',
        param ''patient_id'' ''string'' ''The patient ID'']
       (Some [''bed_id'', ''patient_id'']),
     tool ''get_simulation_status''
       ''Get the current status of the data simulation''
       []
       None]"

text \<open>The constructor \<^verbatim>\<open>SmartHospitalAgent.__init__\<close>.\<close>

definition SmartHospitalAgent :: "string \<Rightarrow> string \<Rightarrow> bool \<Rightarrow> agent" where
  "SmartHospitalAgent api_key base_url function_calling =
     \<lparr>openrouter_api_key = api_key,
      hospital_base_url = base_url,
      openrouter_url = ''https://openrouter.ai/api/v1/chat/completions'',
      model = ''tngtech/deepseek-r1t2-chimera:free'',
      use_function_calling = function_calling,
      tools = define_hospital_tools\<rparr>"

text \<open>The names the catalog declares, in its order.\<close>

definition tool_name :: "json \<Rightarrow> json" where
  "tool_name t =
     (case t of
        JDict d \<Rightarrow> (case dict_get d ''function'' of
                     JDict f \<Rightarrow> dict_get f ''name''
                   | _ \<Rightarrow> JNull)
      | _ \<Rightarrow> JNull)"

definition catalog_names :: "json list" where
  "catalog_names = map tool_name define_hospital_tools"

section \<open>The Hospital API Gateway\<close>

definition api_error :: "string \<Rightarrow> json" where
  "api_error m = JDict [(''error'', JStr (''API call failed: '' @ m))]"

text \<open>
  \<^verbatim>\<open>_make_hospital_api_call\<close>. The \<^verbatim>\<open>if\<close>/\<^verbatim>\<open>elif\<close> chain on the method has no
  \<^verbatim>\<open>else\<close>: with any other method no call is made and the use of the unbound
  \<^verbatim>\<open>response\<close> raises. Only a \<^verbatim>\<open>RequestException\<close> is caught.
\<close>

definition hospital_request :: "agent \<Rightarrow> string \<Rightarrow> string \<Rightarrow> json \<Rightarrow> json \<Rightarrow> request option" where
  "hospital_request a endpoint meth dat prms =
     (let u = hospital_base_url a @ endpoint in
      if meth = ''GET'' then
        Some \<lparr>http_method = ''GET'', url = u, params = prms, json_body = JNull, data = JNull, headers = []\<rparr>
      else if meth = ''POST'' then
        Some \<lparr>http_method = ''POST'', url = u, params = prms, json_body = dat, data = JNull, headers = []\<rparr>
      else if meth = ''PUT'' then
        Some \<lparr>http_method = ''PUT'', url = u, params = prms, json_body = dat, data = JNull, headers = []\<rparr>
      else if meth = ''PATCH'' then
        Some \<lparr>http_method = ''PATCH'', url = u, params = prms, json_body = dat, data = JNull, headers = []\<rparr>
      else if meth = ''DELETE'' then
        Some \<lparr>http_method = ''DELETE'', url = u, params = prms, json_body = JNull, data = JNull, headers = []\<rparr>
      else None)"

definition make_hospital_api_call ::
  "env \<Rightarrow> agent \<Rightarrow> string \<Rightarrow> string \<Rightarrow> json \<Rightarrow> json \<Rightarrow> json io" where
  "make_hospital_api_call e a endpoint meth dat prms log =
     (case hospital_request a endpoint meth dat prms of
        None \<Rightarrow> (Inl (OtherException ''UnboundLocalError''), log)
      | Some r \<Rightarrow>
          (case fetch_json e r log of
             (Inl (RequestException m), log') \<Rightarrow> (Inr (api_error m), log')
           | (Inl (OtherException m), log') \<Rightarrow> (Inl (OtherException m), log')
           | (Inr v, log') \<Rightarrow> (Inr v, log')))"

text \<open>
  The dict comprehension
  \<^verbatim>\<open>{k: v for k, v in arguments.items() if k != key and v is not None}\<close>.
\<close>

definition other_args :: "json \<Rightarrow> string \<Rightarrow> raised + json" where
  "other_args arguments key =
     (case arguments of
        JDict d \<Rightarrow> Inr (JDict (filter (\<lambda>(k, v). k \<noteq> key \<and> v \<noteq> JNull) d))
      | _ \<Rightarrow> Inl (OtherException ''AttributeError''))"

text \<open>
  \<^verbatim>\<open>_execute_hospital_function\<close>: the chain of comparisons of the name, in the
  order of the source. The name and the arguments are whatever the model's response
  held, so a name that is no string falls through every comparison.
\<close>

definition execute_hospital_function :: "env \<Rightarrow> agent \<Rightarrow> json \<Rightarrow> json \<Rightarrow> json io" where
  "execute_hospital_function e a function_name arguments =
     (if function_name = JStr ''get_all_patients'' then
        make_hospital_api_call e a ''/patients/'' ''GET'' JNull arguments
      else if function_name = JStr ''get_patient'' then
        io_bind (io_pure (py_get arguments ''patient_id'')) (\<lambda>patient_id.
          make_hospital_api_call e a (''/patients/'' @ py_str e patient_id) ''GET'' JNull JNull)
      else if function_name = JStr ''create_patient'' then
        io_bind (io_pure (py_get arguments ''patient_data'')) (\<lambda>patient_data.
          make_hospital_api_call e a ''/patients/'' ''POST'' patient_data JNull)
      else if function_name = JStr ''update_patient'' then
        io_bind (io_pure (py_get arguments ''patient_id'')) (\<lambda>patient_id.
        io_bind (io_pure (py_get arguments ''patient_data'')) (\<lambda>patient_data.
          make_hospital_api_call e a (''/patients/'' @ py_str e patient_id) ''PUT'' patient_data JNull))
      else if function_name = JStr ''get_patient_vitals'' then
        io_bind (io_pure (py_get arguments ''patient_id'')) (\<lambda>patient_id.
        io_bind (io_pure (other_args arguments ''patient_id'')) (\<lambda>prms.
          make_hospital_api_call e a (''/patients/'' @ py_str e patient_id @ ''/vitals'') ''GET'' JNull prms))
      else if function_name = JStr ''get_patient_treatments'' then
        io_bind (io_pure (py_get arguments ''patient_id'')) (\<lambda>patient_id.
        io_bind (io_pure (other_args arguments ''patient_id'')) (\<lambda>prms.
          make_hospital_api_call e a (''/patients/'' @ py_str e patient_id @ ''/treatments'') ''GET'' JNull prms))
      else if function_name = JStr ''predict_patient_risk'' then
        io_bind (io_pure (py_get arguments ''patient_id'')) (\<lambda>patient_id.
          make_hospital_api_call e a (''/predict/risk/'' @ py_str e patient_id) ''GET'' JNull JNull)
      else if function_name = JStr ''get_current_alerts'' then
        make_hospital_api_call e a ''/alerts/'' ''GET'' JNull JNull
      else if function_name = JStr ''get_all_staff'' then
        make_hospital_api_call e a ''/staff/'' ''GET'' JNull arguments
      else if function_name = JStr ''get_staff'' then
        io_bind (io_pure (py_get arguments ''staff_id'')) (\<lambda>staff_id.
          make_hospital_api_call e a (''/staff/'' @ py_str e staff_id) ''GET'' JNull JNull)
      else if function_name = JStr ''get_staff_schedule'' then
        io_bind (io_pure (py_get arguments ''staff_id'')) (\<lambda>staff_id.
        io_bind (io_pure (other_args arguments ''staff_id'')) (\<lambda>prms.
          make_hospital_api_call e a (''/staff/'' @ py_str e staff_id @ ''/schedule'') ''GET'' JNull prms))
      else if function_name = JStr ''get_all_iot_devices'' then
        make_hospital_api_call e a ''/iotData/'' ''GET'' JNull JNull
      else if function_name = JStr ''get_device_data'' then
        io_bind (io_pure (py_get arguments ''device_id'')) (\<lambda>device_id.
          make_hospital_api_call e a (''/iotData/'' @ py_str e device_id) ''GET'' JNull JNull)
      else if function_name = JStr ''get_latest_vitals'' then
        io_bind (io_pure (py_get arguments ''device_id'')) (\<lambda>device_id.
          make_hospital_api_call e a (''/iotData/'' @ py_str e device_id @ ''/vitals/latest'') ''GET'' JNull JNull)
      else if function_name = JStr ''detect_anomaly'' then
        io_bind (io_pure (py_get arguments ''monitor_id'')) (\<lambda>monitor_id.
          make_hospital_api_call e a (''/anomalies/detect/'' @ py_str e monitor_id) ''GET'' JNull JNull)
      else if function_name = JStr ''get_all_anomalies'' then
        make_hospital_api_call e a ''/anomalies/'' ''GET'' JNull arguments
      else if function_name = JStr ''get_all_rooms'' then
        make_hospital_api_call e a ''/rooms/'' ''GET'' JNull JNull
      else if function_name = JStr ''get_room'' then
        io_bind (io_pure (py_get arguments ''room_id'')) (\<lambda>room_id.
          make_hospital_api_call e a (''/rooms/'' @ py_str e room_id) ''GET'' JNull JNull)
      else if function_name = JStr ''assign_patient_to_room'' then
        io_bind (io_pure (py_get arguments ''room_id'')) (\<lambda>room_id.
        io_bind (io_pure (py_get arguments ''patient_id'')) (\<lambda>patient_id.
          make_hospital_api_call e a
            (''/rooms/'' @ py_str e room_id @ ''/assign-patient/'' @ py_str e patient_id) ''POST'' JNull JNull))
      else if function_name = JStr ''get_all_beds'' then
        make_hospital_api_call e a ''/beds/'' ''GET'' JNull JNull
      else if function_name = JStr ''get_bed'' then
        io_bind (io_pure (py_get arguments ''bed_id'')) (\<lambda>bed_id.
          make_hospital_api_call e a (''/beds/'' @ py_str e bed_id) ''GET'' JNull JNull)
      else if function_name = JStr ''assign_patient_to_bed'' then
        io_bind (io_pure (py_get arguments ''bed_id'')) (\<lambda>bed_id.
        io_bind (io_pure (py_get arguments ''patient_id'')) (\<lambda>patient_id.
          make_hospital_api_call e a
            (''/beds/'' @ py_str e bed_id @ ''/assign-patient/'' @ py_str e patient_id) ''POST'' JNull JNull))
      else if function_name = JStr ''get_simulation_status'' then
        make_hospital_api_call e a ''/simulation/status'' ''GET'' JNull JNull
      else
        io_pure (Inr (JDict [(''error'', JStr (''Unknown function: '' @ py_str e function_name))])))"

section \<open>The Relevance Extractor\<close>

definition exc_text :: "raised \<Rightarrow> string" where
  "exc_text x = (case x of RequestException m \<Rightarrow> m | OtherException m \<Rightarrow> m)"

text \<open>
  The eight \<^verbatim>\<open>if\<close> statements of \<^verbatim>\<open>_get_relevant_hospital_data\<close>, in their
  order: the words looked for, the endpoint fetched and the key of the bundle the
  payload is stored under.
\<close>

definition categories :: "(string list \<times> string \<times> string) list" where
  "categories =
     [([''patient'', ''patients''], ''/patients/'', ''patients''),
      ([''alert'', ''alerts''], ''/alerts/'', ''alerts''),
      ([''staff'', ''doctor'', ''nurse''], ''/staff/'', ''staff''),
      ([''room'', ''rooms''], ''/rooms/'', ''rooms''),
      ([''bed'', ''beds''], ''/beds/'', ''beds''),
      ([''device'', ''devices'', ''iot'', ''sensor''], ''/iotData/'', ''iot_devices''),
      ([''anomaly'', ''anomalies''], ''/anomalies/'', ''anomalies''),
      ([''simulation'', ''status''], ''/simulation/status'', ''simulation_status'')]"

text \<open>
  The body of the \<^verbatim>\<open>try\<close>: the statements run one after the other on the dict
  \<open>dat\<close>, and the first exception ends them. The dict filled so far is returned with
  the exception, since the handler writes into the same dict.
\<close>

fun fetch_categories ::
  "env \<Rightarrow> agent \<Rightarrow> string \<Rightarrow> (string list \<times> string \<times> string) list \<Rightarrow> (string \<times> json) list \<Rightarrow>
   request list \<Rightarrow> ((string \<times> json) list \<times> raised option) \<times> request list" where
  "fetch_categories e a message_lower [] dat log = ((dat, None), log)"
| "fetch_categories e a message_lower ((ws, endpoint, key) # cs) dat log =
     (if any_in ws message_lower then
        (case make_hospital_api_call e a endpoint ''GET'' JNull JNull log of
           (Inl x, log') \<Rightarrow> ((dat, Some x), log')
         | (Inr v, log') \<Rightarrow> fetch_categories e a message_lower cs (dict_set dat key v) log')
      else fetch_categories e a message_lower cs dat log)"

definition get_relevant_hospital_data ::
  "env \<Rightarrow> agent \<Rightarrow> string \<Rightarrow> request list \<Rightarrow> (string \<times> json) list \<times> request list" where
  "get_relevant_hospital_data e a user_message log =
     (let message_lower = lower user_message in
      case fetch_categories e a message_lower categories [] log of
        ((dat, None), log') \<Rightarrow> (dat, log')
      | ((dat, Some x), log') \<Rightarrow>
          (dict_set dat ''error'' (JStr (''Error fetching hospital data: '' @ exc_text x)), log'))"

section \<open>The Conversation Orchestrator\<close>

definition hospital_keywords :: "string list" where
  "hospital_keywords =
     [''patient'', ''staff'', ''room'', ''bed'', ''alert'', ''vital'', ''device'',
      ''iot'', ''anomaly'', ''treatment'', ''schedule'', ''simulation'', ''ward'',
      ''critical'', ''monitor'', ''hospital'']"

definition nl :: char where
  "nl = CHR 0x0A"

text \<open>The system message that carries the serialised hospital data.\<close>

definition data_system_message :: "string \<Rightarrow> string" where
  "data_system_message dumped =
     ''You are an AI assistant for a Smart Hospital Management System. '' @ [nl, nl] @
     ''Based on the user'' @ [CHR 0x27] @ ''s question, here is the relevant hospital data:'' @ [nl, nl] @
     dumped @ [nl, nl] @
     ''Use this data to answer the user'' @ [CHR 0x27] @
     ''s question. Be professional and prioritize patient safety and privacy.''"

definition standard_system_message :: string where
  "standard_system_message =
     ''You are an AI assistant for a Smart Hospital Management System. You have access to various hospital tools and APIs that allow you to:'' @ [nl, nl] @
     ''- Manage patient records, vitals, and treatments'' @ [nl] @
     ''- Monitor staff schedules and assignments'' @ [nl] @
     ''- Track IoT devices and sensor data'' @ [nl] @
     ''- Detect anomalies in patient monitoring'' @ [nl] @
     ''- Manage room and bed assignments'' @ [nl] @
     ''- View alerts and simulation status'' @ [nl, nl] @
     ''When users ask questions about the hospital, use the appropriate tools to gather information and provide helpful responses. Always be professional and prioritize patient safety and privacy.''"

definition turn :: "string \<Rightarrow> string \<Rightarrow> json" where
  "turn role_name txt = JDict [(''role'', JStr role_name), (''content'', JStr txt)]"

text \<open>
  The first part of \<^verbatim>\<open>chat_with_tools\<close>, up to the payload: the choice of the
  system message (with the calls of the extractor it may need), the message list and
  the payload, which gets the tools only when function calling is enabled.
\<close>

definition system_message_for ::
  "env \<Rightarrow> agent \<Rightarrow> string \<Rightarrow> request list \<Rightarrow> string \<times> request list" where
  "system_message_for e a user_message log =
     (let needs_hospital_data = any_in hospital_keywords (lower user_message) in
      if needs_hospital_data \<and> \<not> use_function_calling a then
        (case get_relevant_hospital_data e a user_message log of
           (hospital_data, log') \<Rightarrow> (data_system_message (dumps_indent2 e (JDict hospital_data)), log'))
      else (standard_system_message, log))"

definition build_messages :: "string \<Rightarrow> json list \<Rightarrow> string \<Rightarrow> json list" where
  "build_messages system_message history user_message =
     [turn ''system'' system_message] @ history @ [turn ''user'' user_message]"

definition build_payload :: "agent \<Rightarrow> json list \<Rightarrow> (string \<times> json) list" where
  "build_payload a messages =
     (let payload = [(''model'', JStr (model a)), (''messages'', JList messages)] in
      if use_function_calling a then
        dict_set (dict_set payload ''tools'' (JList (tools a))) ''tool_choice'' (JStr ''auto'')
      else payload)"

definition openrouter_request :: "agent \<Rightarrow> (string \<times> json) list \<Rightarrow> request" where
  "openrouter_request a payload =
     \<lparr>http_method = ''POST'',
      url = openrouter_url a,
      params = JNull,
      json_body = JNull,
      data = JDict payload,
      headers =
        [(''Authorization'', ''Bearer '' @ openrouter_api_key a),
         (''Content-Type'', ''application/json''),
         (''HTTP-Referer'', ''https://github.com/smart-hospital-system''),
         (''X-Title'', ''Smart Hospital AI Agent'')]\<rparr>"

definition exc_bind :: "raised + 'a \<Rightarrow> ('a \<Rightarrow> raised + 'b) \<Rightarrow> raised + 'b" where
  "exc_bind r f = (case r of Inl x \<Rightarrow> Inl x | Inr v \<Rightarrow> f v)"

text \<open>\<^verbatim>\<open>response_data["choices"][0]["message"]\<close>.\<close>

definition first_choice_message :: "json \<Rightarrow> raised + json" where
  "first_choice_message response_data =
     exc_bind (py_item response_data ''choices'') (\<lambda>choices.
     exc_bind (py_first choices) (\<lambda>choice.
       py_item choice ''message''))"

text \<open>
  \<^verbatim>\<open>self.use_function_calling and message.get("tool_calls")\<close>, as a condition: the
  right operand is not evaluated when function calling is disabled.
\<close>

definition wants_tools :: "agent \<Rightarrow> json \<Rightarrow> raised + bool" where
  "wants_tools a message =
     (if use_function_calling a then
        exc_bind (py_get message ''tool_calls'') (\<lambda>v. Inr (py_truthy v))
      else Inr False)"

text \<open>\<^verbatim>\<open>json.loads(x)\<close>: the argument has to be a string, and it has to parse.\<close>

definition json_loads :: "env \<Rightarrow> json \<Rightarrow> raised + json" where
  "json_loads e x =
     (case x of
        JStr s \<Rightarrow> (case loads e s of
                    None \<Rightarrow> Inl (OtherException ''JSONDecodeError'')
                  | Some v \<Rightarrow> Inr v)
      | _ \<Rightarrow> Inl (OtherException ''TypeError''))"

definition call_name :: "json \<Rightarrow> raised + json" where
  "call_name tool_call = exc_bind (py_item tool_call ''function'') (\<lambda>f. py_item f ''name'')"

definition call_arguments :: "env \<Rightarrow> json \<Rightarrow> raised + json" where
  "call_arguments e tool_call =
     exc_bind (exc_bind (py_item tool_call ''function'') (\<lambda>f. py_item f ''arguments'')) (json_loads e)"

definition tool_turn :: "env \<Rightarrow> json \<Rightarrow> json \<Rightarrow> json" where
  "tool_turn e call_id result =
     JDict [(''tool_call_id'', call_id), (''role'', JStr ''tool''), (''content'', JStr (dumps e result))]"

text \<open>
  The loop over the tool calls of the model's message: name, parsed arguments, the
  gateway call, then the tool turn, whose \<^verbatim>\<open>tool_call["id"]\<close> is read only after the
  gateway has been called.
\<close>

fun resolve_tool_calls :: "env \<Rightarrow> agent \<Rightarrow> json list \<Rightarrow> json list \<Rightarrow> json list io" where
  "resolve_tool_calls e a [] tool_results = io_pure (Inr tool_results)"
| "resolve_tool_calls e a (tool_call # rest) tool_results =
     io_bind (io_pure (call_name tool_call)) (\<lambda>function_name.
     io_bind (io_pure (call_arguments e tool_call)) (\<lambda>function_args.
     io_bind (execute_hospital_function e a function_name function_args) (\<lambda>result.
     io_bind (io_pure (py_item tool_call ''id'')) (\<lambda>call_id.
       resolve_tool_calls e a rest (tool_results @ [tool_turn e call_id result])))))"

text \<open>\<^verbatim>\<open>[tc["function"]["name"] for tc in message["tool_calls"]]\<close>.\<close>

fun call_names :: "json list \<Rightarrow> raised + json list" where
  "call_names [] = Inr []"
| "call_names (tc # tcs) =
     exc_bind (call_name tc) (\<lambda>n. exc_bind (call_names tcs) (\<lambda>ns. Inr (n # ns)))"

text \<open>The dict \<^verbatim>\<open>chat_with_tools\<close> returns when no exception was caught.\<close>

record chat_result =
  response :: json
  tool_calls_made :: nat
  tools_used :: "json list"
  conversation_history :: "json list"

text \<open>
  The \<^verbatim>\<open>try\<close> block of \<^verbatim>\<open>chat_with_tools\<close>. \<open>Inl x\<close> is the exception that one
  of the two \<^verbatim>\<open>except\<close> clauses turns into the returned \<^verbatim>\<open>{"error": ...}\<close>; the
  text of that error is not modelled. The second call sends the payload of the first
  with its \<^verbatim>\<open>"messages"\<close> entry replaced.
\<close>

definition run_model ::
  "env \<Rightarrow> agent \<Rightarrow> json list \<Rightarrow> (string \<times> json) list \<Rightarrow> chat_result io" where
  "run_model e a messages payload =
     io_bind (fetch_json e (openrouter_request a payload)) (\<lambda>response_data.
     io_bind (io_pure (first_choice_message response_data)) (\<lambda>message.
     io_bind (io_pure (wants_tools a message)) (\<lambda>wanted.
       if wanted then
         io_bind (io_pure (exc_bind (py_item message ''tool_calls'') py_iter)) (\<lambda>tool_calls.
         io_bind (resolve_tool_calls e a tool_calls []) (\<lambda>tool_results.
         io_bind (fetch_json e (openrouter_request a
                    (dict_set payload ''messages'' (JList (messages @ [message] @ tool_results))))) (\<lambda>final_data.
         io_bind (io_pure (exc_bind (first_choice_message final_data) (\<lambda>m. py_item m ''content''))) (\<lambda>answer.
         io_bind (io_pure (call_names tool_calls)) (\<lambda>used.
           io_pure (Inr \<lparr>response = answer,
                         tool_calls_made = length tool_results,
                         tools_used = used,
                         conversation_history = messages @ [message] @ tool_results\<rparr>))))))
       else
         io_bind (io_pure (py_item message ''content'')) (\<lambda>answer.
           io_pure (Inr \<lparr>response = answer,
                         tool_calls_made = 0,
                         tools_used = [],
                         conversation_history = messages\<rparr>)))))"

definition chat_with_tools ::
  "env \<Rightarrow> agent \<Rightarrow> string \<Rightarrow> json list option \<Rightarrow> chat_result io" where
  "chat_with_tools e a user_message history log =
     (let hist = (case history of None \<Rightarrow> [] | Some h \<Rightarrow> h) in
      case system_message_for e a user_message log of
        (system_message, log1) \<Rightarrow>
          (let messages = build_messages system_message hist user_message in
           run_model e a messages (build_payload a messages) log1))"

section \<open>The gateway's contract, in the words of the specification\<close>

text \<open>
  What the Tool Catalog declares for a tool: its parameters and the required ones.
\<close>

definition catalog_entry :: "string \<Rightarrow> json" where
  "catalog_entry name =
     (case find (\<lambda>t. tool_name t = JStr name) define_hospital_tools of
        None \<Rightarrow> JNull
      | Some t \<Rightarrow> t)"

definition entry_parameters :: "json \<Rightarrow> (string \<times> json) list" where
  "entry_parameters t =
     (case t of
        JDict d \<Rightarrow> (case dict_get d ''function'' of
                     JDict f \<Rightarrow> (case dict_get f ''parameters'' of JDict ps \<Rightarrow> ps | _ \<Rightarrow> [])
                   | _ \<Rightarrow> [])
      | _ \<Rightarrow> [])"

definition declared_parameters :: "string \<Rightarrow> string list" where
  "declared_parameters name =
     (case dict_get (entry_parameters (catalog_entry name)) ''properties'' of
        JDict ps \<Rightarrow> map fst ps
      | _ \<Rightarrow> [])"

definition required_parameters :: "string \<Rightarrow> string list" where
  "required_parameters name =
     (case dict_get (entry_parameters (catalog_entry name)) ''required'' of
        JList rs \<Rightarrow> concat (map (\<lambda>r. case r of JStr p \<Rightarrow> [p] | _ \<Rightarrow> []) rs)
      | _ \<Rightarrow> [])"

text \<open>
  The rule of the specification: the method is POST for the create and the two assign
  operations, PUT for the update and GET for every read; the path parameters are the
  required identifiers; the remaining arguments that are not null travel as the query
  (GET) or as the body (mutating methods).
\<close>

definition spec_method :: "string \<Rightarrow> string" where
  "spec_method name =
     (if name \<in> set [''create_patient'', ''assign_patient_to_room'', ''assign_patient_to_bed''] then ''POST''
      else if name = ''update_patient'' then ''PUT''
      else ''GET'')"

definition spec_path_parameters :: "string \<Rightarrow> string list" where
  "spec_path_parameters name = filter (suffix ''_id'') (required_parameters name)"

definition spec_remaining :: "string \<Rightarrow> (string \<times> json) list \<Rightarrow> (string \<times> json) list" where
  "spec_remaining name args =
     filter (\<lambda>kv. fst kv \<notin> set (spec_path_parameters name) \<and> snd kv \<noteq> JNull) args"

text \<open>
  The query a request carries: the entries of \<^verbatim>\<open>params\<close> that are not null (the
  HTTP client leaves out a parameter whose value is \<^verbatim>\<open>None\<close>).
\<close>

definition query_items :: "json \<Rightarrow> (string \<times> json) list" where
  "query_items prms =
     (case prms of
        JDict d \<Rightarrow> filter (\<lambda>kv. snd kv \<noteq> JNull) d
      | _ \<Rightarrow> [])"

section \<open>Failures of the hospital backend, in the words of the specification\<close>





section \<open>Conversations, in the words of the specification\<close>

definition role_of :: "json \<Rightarrow> json" where
  "role_of t = (case t of JDict d \<Rightarrow> dict_get d ''role'' | _ \<Rightarrow> JNull)"

text \<open>Exactly one system turn exists and it is the first turn.\<close>

definition one_system_first :: "json list \<Rightarrow> bool" where
  "one_system_first c =
     (case c of
        [] \<Rightarrow> False
      | t # rest \<Rightarrow> role_of t = JStr ''system'' \<and> list_all (\<lambda>u. role_of u \<noteq> JStr ''system'') rest)"

text \<open>
  The tool turns \<open>results\<close> answer the invocation requests \<open>tool_calls\<close> one by one: each is
  a tool turn that carries the correlation id of its request.
\<close>

definition answers :: "env \<Rightarrow> json list \<Rightarrow> json list \<Rightarrow> bool" where
  "answers e tool_calls results =
     list_all2 (\<lambda>tc t. \<exists>call_id result. py_item tc ''id'' = Inr call_id \<and> t = tool_turn e call_id result)
       tool_calls results"

text \<open>A request carries tool schemas.\<close>

definition carries_tools :: "request \<Rightarrow> bool" where
  "carries_tools r = (case data r of JDict p \<Rightarrow> ''tools'' \<in> set (map fst p) | _ \<Rightarrow> False)"


text \<open>A computation adds at most \<open>n\<close> requests to the log.\<close>

definition adds_at_most :: "nat \<Rightarrow> 'a io \<Rightarrow> bool" where
  "adds_at_most n m = (\<forall>log. \<exists>ext. snd (m log) = log @ ext \<and> length ext \<le> n)"

section \<open>Concrete environments\<close>

text \<open>A hospital backend that cannot be reached, and an agent in its default mode.\<close>

definition unreachable :: env where
  "unreachable =
     \<lparr>respond = (\<lambda>log r. Inl (RequestException ''Connection refused'')),
      loads = (\<lambda>s. None),
      dumps = (\<lambda>v. ''?''),
      dumps_indent2 = (\<lambda>v. ''?''),
      repr = (\<lambda>v. ''?'')\<rparr>"

text \<open>A hospital backend that answers every request with status 404.\<close>

definition hospital_404 :: env where
  "hospital_404 =
     \<lparr>respond = (\<lambda>log r. Inr \<lparr>http_error = Some ''404 Client Error: Not Found'',
                                 json_result = Inl (RequestException ''Expecting value'')\<rparr>),
      loads = (\<lambda>s. None),
      dumps = (\<lambda>v. ''?''),
      dumps_indent2 = (\<lambda>v. ''?''),
      repr = (\<lambda>v. ''?'')\<rparr>"


text \<open>
  An LLM backend that answers every submission with the same text and asks for no
  tool, next to a hospital backend whose lists are empty.
\<close>

definition llm_reply :: "json \<Rightarrow> http_response" where
  "llm_reply message =
     \<lparr>http_error = None,
      json_result = Inr (JDict [(''choices'', JList [JDict [(''message'', message)]])])\<rparr>"

definition chatty :: env where
  "chatty =
     \<lparr>respond = (\<lambda>log r.
          if url r = ''https://openrouter.ai/api/v1/chat/completions''
          then Inr (llm_reply (JDict [(''role'', JStr ''assistant''),
                                      (''content'', JStr ''Hello! How can I help?'')]))
          else Inr \<lparr>http_error = None, json_result = Inr (JList [])\<rparr>),
      loads = (\<lambda>s. None),
      dumps = (\<lambda>v. ''?''),
      dumps_indent2 = (\<lambda>v. ''{...}''),
      repr = (\<lambda>v. ''?'')\<rparr>"

text \<open>
  An LLM backend that asks for the current alerts twice in its first response and, in
  its second response, gives a text and asks for the alerts once more.
\<close>

definition alerts_call :: "string \<Rightarrow> json" where
  "alerts_call call_id =
     JDict [(''id'', JStr call_id),
            (''type'', JStr ''function''),
            (''function'', JDict [(''name'', JStr ''get_current_alerts''),
                                  (''arguments'', JStr ''{}'')])]"

definition first_message :: json where
  "first_message =
     JDict [(''role'', JStr ''assistant''),
            (''content'', JNull),
            (''tool_calls'', JList [alerts_call ''call_1'', alerts_call ''call_2''])]"

definition second_message :: json where
  "second_message =
     JDict [(''role'', JStr ''assistant''),
            (''content'', JStr ''There are no active alerts.''),
            (''tool_calls'', JList [alerts_call ''call_3''])]"

definition tool_backend :: env where
  "tool_backend =
     \<lparr>respond = (\<lambda>log r.
          if url r = ''https://openrouter.ai/api/v1/chat/completions''
          then (if log = [] then Inr (llm_reply first_message) else Inr (llm_reply second_message))
          else Inr \<lparr>http_error = None, json_result = Inr (JList [])\<rparr>),
      loads = (\<lambda>s. if s = ''{}'' then Some (JDict []) else None),
      dumps = (\<lambda>v. if v = JList [] then ''[]'' else ''?''),
      dumps_indent2 = (\<lambda>v. ''?''),
      repr = (\<lambda>v. ''?'')\<rparr>"

definition tool_agent :: agent where
  "tool_agent = SmartHospitalAgent ''sk-test'' ''https://dt-agent-api.onrender.com/'' True"

definition default_agent :: agent where
  "default_agent = SmartHospitalAgent ''sk-test'' ''https://dt-agent-api.onrender.com/'' False"

section \<open>Facts about the catalog\<close>

lemma catalog_names_eq:
  "catalog_names = map JStr
     [''get_all_patients'', ''get_patient'', ''create_patient'', ''update_patient'',
      ''get_patient_vitals'', ''get_patient_treatments'', ''predict_patient_risk'',
      ''get_current_alerts'', ''get_all_staff'', ''get_staff'', ''get_staff_schedule'',
      ''get_all_iot_devices'', ''get_device_data'', ''get_latest_vitals'', ''detect_anomaly'',
      ''get_all_anomalies'', ''get_all_rooms'', ''get_room'', ''assign_patient_to_room'',
      ''get_all_beds'', ''get_bed'', ''assign_patient_to_bed'', ''get_simulation_status'']"
  by (simp add: catalog_names_def define_hospital_tools_def tool_def tool_name_def dict_get_def)

section \<open>One call per known tool\<close>

lemma str_in_sublist: "str_in sub s = sublist sub s"
  by (induction s) (simp_all add: sublist_Cons_right)

lemma hospital_call_sent:
  assumes "hospital_request a ep m d p = Some r"
  shows "\<exists>outcome. make_hospital_api_call e a ep m d p log = (outcome, log @ [r]) \<and>
           (\<forall>msg. respond e log r = Inl (RequestException msg) \<longrightarrow> outcome = Inr (api_error msg)) \<and>
           (\<forall>resp msg. respond e log r = Inr resp \<longrightarrow> http_error resp = Some msg \<longrightarrow> outcome = Inr (api_error msg))"
  using assms
  by (auto simp: make_hospital_api_call_def fetch_json_def io_bind_def io_pure_def http_send_def
        raise_for_status_def split: sum.splits raised.splits option.splits prod.splits)

lemma declared_table:
  "declared_parameters ''get_all_patients'' = [''ward'', ''status'', ''risk_level'']"
  "declared_parameters ''get_patient'' = [''patient_id'']"
  "declared_parameters ''create_patient'' = [''patient_data'']"
  "declared_parameters ''update_patient'' = [''patient_id'', ''patient_data'']"
  "declared_parameters ''get_patient_vitals'' = [''patient_id'', ''start_time'', ''end_time'', ''limit'']"
  "declared_parameters ''get_patient_treatments'' = [''patient_id'', ''status'']"
  "declared_parameters ''predict_patient_risk'' = [''patient_id'']"
  "declared_parameters ''get_current_alerts'' = []"
  "declared_parameters ''get_all_staff'' = [''role'', ''department'', ''onDuty'']"
  "declared_parameters ''get_staff'' = [''staff_id'']"
  "declared_parameters ''get_staff_schedule'' = [''staff_id'', ''start_date'', ''end_date'']"
  "declared_parameters ''get_all_iot_devices'' = []"
  "declared_parameters ''get_device_data'' = [''device_id'']"
  "declared_parameters ''get_latest_vitals'' = [''device_id'']"
  "declared_parameters ''detect_anomaly'' = [''monitor_id'']"
  "declared_parameters ''get_all_anomalies'' = [''hours'', ''severity_filter'']"
  "declared_parameters ''get_all_rooms'' = []"
  "declared_parameters ''get_room'' = [''room_id'']"
  "declared_parameters ''assign_patient_to_room'' = [''room_id'', ''patient_id'']"
  "declared_parameters ''get_all_beds'' = []"
  "declared_parameters ''get_bed'' = [''bed_id'']"
  "declared_parameters ''assign_patient_to_bed'' = [''bed_id'', ''patient_id'']"
  "declared_parameters ''get_simulation_status'' = []"
  by (simp_all add: declared_parameters_def catalog_entry_def define_hospital_tools_def tool_def
        tool_name_def dict_get_def entry_parameters_def param_def param_default_def)

lemma path_table:
  "spec_path_parameters ''get_all_patients'' = []"
  "spec_path_parameters ''get_patient'' = [''patient_id'']"
  "spec_path_parameters ''create_patient'' = []"
  "spec_path_parameters ''update_patient'' = [''patient_id'']"
  "spec_path_parameters ''get_patient_vitals'' = [''patient_id'']"
  "spec_path_parameters ''get_patient_treatments'' = [''patient_id'']"
  "spec_path_parameters ''predict_patient_risk'' = [''patient_id'']"
  "spec_path_parameters ''get_current_alerts'' = []"
  "spec_path_parameters ''get_all_staff'' = []"
  "spec_path_parameters ''get_staff'' = [''staff_id'']"
  "spec_path_parameters ''get_staff_schedule'' = [''staff_id'']"
  "spec_path_parameters ''get_all_iot_devices'' = []"
  "spec_path_parameters ''get_device_data'' = [''device_id'']"
  "spec_path_parameters ''get_latest_vitals'' = [''device_id'']"
  "spec_path_parameters ''detect_anomaly'' = [''monitor_id'']"
  "spec_path_parameters ''get_all_anomalies'' = []"
  "spec_path_parameters ''get_all_rooms'' = []"
  "spec_path_parameters ''get_room'' = [''room_id'']"
  "spec_path_parameters ''assign_patient_to_room'' = [''room_id'', ''patient_id'']"
  "spec_path_parameters ''get_all_beds'' = []"
  "spec_path_parameters ''get_bed'' = [''bed_id'']"
  "spec_path_parameters ''assign_patient_to_bed'' = [''bed_id'', ''patient_id'']"
  "spec_path_parameters ''get_simulation_status'' = []"
  by (simp_all add: spec_path_parameters_def required_parameters_def catalog_entry_def
        define_hospital_tools_def tool_def tool_name_def dict_get_def entry_parameters_def suffix_def)

lemma sole_body:
  assumes "distinct (map fst args)"
  shows "(case filter (\<lambda>kv. fst kv = k \<and> snd kv \<noteq> JNull) args of [] \<Rightarrow> JNull | kv # _ \<Rightarrow> snd kv) = dict_get args k"
  using assms
proof (induction args)
  case Nil
  then show ?case by (simp add: dict_get_def)
next
  case (Cons kv args)
  show ?case
  proof (cases "fst kv = k")
    case True
    with Cons.prems have "k \<notin> fst ` set args" by auto
    then have "filter (\<lambda>kv. fst kv = k \<and> snd kv \<noteq> JNull) args = []"
      by (auto simp: filter_empty_conv)
    with True show ?thesis by (cases kv) (simp add: dict_get_def)
  next
    case False
    with Cons show ?thesis by (cases kv) (simp add: dict_get_def)
  qed
qed

lemma gateway_case:
  assumes ex: "execute_hospital_function e a (JStr name) (JDict args) log =
                 make_hospital_api_call e a ep m d p log"
    and m: "m = spec_method name"
    and path: "\<forall>pp \<in> set (spec_path_parameters name). sublist (py_str e (dict_get args pp)) ep"
    and rest: "distinct (map fst args) \<and> set (map fst args) \<subseteq> set (declared_parameters name) \<longrightarrow>
         (if m = ''GET'' then query_items p = spec_remaining name args
          else p = JNull \<and> d = (case spec_remaining name args of [] \<Rightarrow> JNull | kv # _ \<Rightarrow> snd kv))"
  shows "\<exists>r outcome.
     execute_hospital_function e a (JStr name) (JDict args) log = (outcome, log @ [r]) \<and>
     http_method r = spec_method name \<and>
     prefix (hospital_base_url a) (url r) \<and>
     (\<forall>p \<in> set (spec_path_parameters name). str_in (py_str e (dict_get args p)) (url r)) \<and>
     (distinct (map fst args) \<and> set (map fst args) \<subseteq> set (declared_parameters name) \<longrightarrow>
        (if http_method r = ''GET'' then json_body r = JNull \<and> query_items (params r) = spec_remaining name args
         else params r = JNull \<and> json_body r = (case spec_remaining name args of [] \<Rightarrow> JNull | kv # _ \<Rightarrow> snd kv))) \<and>
     (\<forall>resp msg. respond e log r = Inr resp \<longrightarrow> http_error resp = Some msg \<longrightarrow> outcome = Inr (api_error msg))"
proof -
  define r where "r = \<lparr>http_method = m, url = hospital_base_url a @ ep, params = p,
      json_body = (if m = ''GET'' then JNull else d), data = JNull, headers = []\<rparr>"
  have "m = ''GET'' \<or> m = ''POST'' \<or> m = ''PUT''"
    by (simp add: m spec_method_def)
  then have req: "hospital_request a ep m d p = Some r"
    by (auto simp: hospital_request_def r_def)
  from hospital_call_sent [OF req, of e log] obtain outcome where
    o: "make_hospital_api_call e a ep m d p log = (outcome, log @ [r])"
       "\<forall>resp msg. respond e log r = Inr resp \<longrightarrow> http_error resp = Some msg \<longrightarrow> outcome = Inr (api_error msg)"
    by blast
  have p1: "\<forall>pp \<in> set (spec_path_parameters name). str_in (py_str e (dict_get args pp)) (url r)"
    using path by (auto simp: r_def str_in_sublist sublist_append)
  show ?thesis
    apply (rule exI [of _ r], rule exI [of _ outcome])
    using ex o m p1 rest
    by (simp add: r_def)
qed

lemmas exec_simps = execute_hospital_function_def io_bind_def io_pure_def py_get_def other_args_def

lemma sublist_skip: "sublist xs ys \<Longrightarrow> sublist xs (y # ys) = True"
  by (simp add: sublist_Cons_right)

lemma sublist_skip_append: "sublist xs zs \<Longrightarrow> sublist xs (ys @ zs) = True"
  by (metis sublist_append)

lemma query_simps:
  "query_items JNull = []"
  "query_items (JDict args) = filter (\<lambda>kv. snd kv \<noteq> JNull) args"
  by (simp_all add: query_items_def)

lemmas rest_simps = query_simps spec_remaining_def

lemma body_of_remaining:
  assumes "distinct (map fst args)" and "fst ` set args \<subseteq> insert k S" and "k \<notin> S"
  shows "(case filter (\<lambda>kv. fst kv \<notin> S \<and> snd kv \<noteq> JNull) args of [] \<Rightarrow> JNull | kv # _ \<Rightarrow> snd kv)
           = dict_get args k"
proof -
  have "filter (\<lambda>kv. fst kv \<notin> S \<and> snd kv \<noteq> JNull) args =
        filter (\<lambda>kv. fst kv = k \<and> snd kv \<noteq> JNull) args"
    using assms(2,3) by (intro filter_cong) auto
  then show ?thesis
    using sole_body [OF assms(1), of k] by simp
qed

lemma create_patient_body:
  assumes "distinct (map fst args)" and "fst ` set args \<subseteq> {''patient_data''}"
  shows "(case spec_remaining ''create_patient'' args of [] \<Rightarrow> JNull | kv # _ \<Rightarrow> snd kv)
           = dict_get args ''patient_data''"
  using body_of_remaining [OF assms(1), of "''patient_data''" "{}"] assms(2)
  by (simp add: spec_remaining_def path_table)

lemma update_patient_body:
  assumes "distinct (map fst args)" and "fst ` set args \<subseteq> {''patient_id'', ''patient_data''}"
  shows "(case spec_remaining ''update_patient'' args of [] \<Rightarrow> JNull | kv # _ \<Rightarrow> snd kv)
           = dict_get args ''patient_data''"
  using body_of_remaining [OF assms(1), of "''patient_data''" "{''patient_id''}"] assms(2)
  by (auto simp: spec_remaining_def path_table)

lemma known_name:
  assumes "JStr name \<in> set catalog_names"
  shows "name = ''get_all_patients'' \<or>
     name = ''get_patient'' \<or>
     name = ''create_patient'' \<or>
     name = ''update_patient'' \<or>
     name = ''get_patient_vitals'' \<or>
     name = ''get_patient_treatments'' \<or>
     name = ''predict_patient_risk'' \<or>
     name = ''get_current_alerts'' \<or>
     name = ''get_all_staff'' \<or>
     name = ''get_staff'' \<or>
     name = ''get_staff_schedule'' \<or>
     name = ''get_all_iot_devices'' \<or>
     name = ''get_device_data'' \<or>
     name = ''get_latest_vitals'' \<or>
     name = ''detect_anomaly'' \<or>
     name = ''get_all_anomalies'' \<or>
     name = ''get_all_rooms'' \<or>
     name = ''get_room'' \<or>
     name = ''assign_patient_to_room'' \<or>
     name = ''get_all_beds'' \<or>
     name = ''get_bed'' \<or>
     name = ''assign_patient_to_bed'' \<or>
     name = ''get_simulation_status''"
proof -
  have "inj JStr" by (simp add: inj_def)
  then have "name \<in> set [''get_all_patients'', ''get_patient'', ''create_patient'', ''update_patient'', ''get_patient_vitals'', ''get_patient_treatments'', ''predict_patient_risk'', ''get_current_alerts'', ''get_all_staff'', ''get_staff'', ''get_staff_schedule'', ''get_all_iot_devices'', ''get_device_data'', ''get_latest_vitals'', ''detect_anomaly'', ''get_all_anomalies'', ''get_all_rooms'', ''get_room'', ''assign_patient_to_room'', ''get_all_beds'', ''get_bed'', ''assign_patient_to_bed'', ''get_simulation_status'']"
    using assms unfolding catalog_names_eq list.set_map
    by (simp only: inj_image_mem_iff)
  then show ?thesis
    by (simp only: list.set insert_iff empty_iff simp_thms)
qed

lemma assign_room_body:
  assumes "fst ` set args \<subseteq> {''room_id'', ''patient_id''}"
  shows "spec_remaining ''assign_patient_to_room'' args = []"
  using assms by (auto simp: spec_remaining_def path_table filter_empty_conv)

lemma assign_bed_body:
  assumes "fst ` set args \<subseteq> {''bed_id'', ''patient_id''}"
  shows "spec_remaining ''assign_patient_to_bed'' args = []"
  using assms by (auto simp: spec_remaining_def path_table filter_empty_conv)

text \<open>
  C5. For every tool name of the catalog and every argument dict, the gateway makes
  exactly one HTTP call (the log grows by one request \<open>r\<close>). Its method follows the
  rule of the specification: POST for \<^verbatim>\<open>create_patient\<close> and the two assign operations,
  PUT for \<^verbatim>\<open>update_patient\<close>, GET for every read. The URL starts with the base URL
  and contains the value of every required identifier. When the arguments are a dict
  of declared parameters, a GET carries no body and its query is made of the remaining
  arguments that are not null, and a mutating call carries no query and has the
  remaining argument as its JSON body. An error status of the backend (a response that
  \<^verbatim>\<open>raise_for_status\<close> rejects, such as a 404) gives the error dict with the upstream
  message as a value, not an exception.
\<close>

theorem gateway_one_call:
  assumes "JStr name \<in> set catalog_names"
  shows "\<exists>r outcome.
     execute_hospital_function e a (JStr name) (JDict args) log = (outcome, log @ [r]) \<and>
     http_method r = spec_method name \<and>
     prefix (hospital_base_url a) (url r) \<and>
     (\<forall>p \<in> set (spec_path_parameters name). str_in (py_str e (dict_get args p)) (url r)) \<and>
     (distinct (map fst args) \<and> set (map fst args) \<subseteq> set (declared_parameters name) \<longrightarrow>
        (if http_method r = ''GET'' then json_body r = JNull \<and> query_items (params r) = spec_remaining name args
         else params r = JNull \<and> json_body r = (case spec_remaining name args of [] \<Rightarrow> JNull | kv # _ \<Rightarrow> snd kv))) \<and>
     (\<forall>resp msg. respond e log r = Inr resp \<longrightarrow> http_error resp = Some msg \<longrightarrow> outcome = Inr (api_error msg))"
  using known_name [OF assms]
  apply (elim disjE)
    subgoal
      by (rule gateway_case [where ep = "''/patients/''" and m = "''GET''" and d = "JNull" and p = "JDict args"])
         (auto simp: exec_simps spec_method_def path_table declared_table rest_simps sublist_skip sublist_skip_append
            filter_empty_conv empty_filter_conv case_prod_beta intro!: filter_cong)
    subgoal
      by (rule gateway_case [where ep = "''/patients/'' @ py_str e (dict_get args ''patient_id'')" and m = "''GET''" and d = "JNull" and p = "JNull"])
         (auto simp: exec_simps spec_method_def path_table declared_table rest_simps sublist_skip sublist_skip_append
            filter_empty_conv empty_filter_conv case_prod_beta intro!: filter_cong)
    subgoal
      by (rule gateway_case [where ep = "''/patients/''" and m = "''POST''" and d = "dict_get args ''patient_data''" and p = "JNull"])
         (auto simp: exec_simps spec_method_def path_table declared_table query_simps sublist_skip sublist_skip_append
            create_patient_body update_patient_body)
    subgoal
      by (rule gateway_case [where ep = "''/patients/'' @ py_str e (dict_get args ''patient_id'')" and m = "''PUT''" and d = "dict_get args ''patient_data''" and p = "JNull"])
         (auto simp: exec_simps spec_method_def path_table declared_table query_simps sublist_skip sublist_skip_append
            create_patient_body update_patient_body)
    subgoal
      by (rule gateway_case [where ep = "''/patients/'' @ py_str e (dict_get args ''patient_id'') @ ''/vitals''" and m = "''GET''" and d = "JNull" and p = "JDict (filter (\<lambda>(k, v). k \<noteq> ''patient_id'' \<and> v \<noteq> JNull) args)"])
         (auto simp: exec_simps spec_method_def path_table declared_table rest_simps sublist_skip sublist_skip_append
            filter_empty_conv empty_filter_conv case_prod_beta intro!: filter_cong)
    subgoal
      by (rule gateway_case [where ep = "''/patients/'' @ py_str e (dict_get args ''patient_id'') @ ''/treatments''" and m = "''GET''" and d = "JNull" and p = "JDict (filter (\<lambda>(k, v). k \<noteq> ''patient_id'' \<and> v \<noteq> JNull) args)"])
         (auto simp: exec_simps spec_method_def path_table declared_table rest_simps sublist_skip sublist_skip_append
            filter_empty_conv empty_filter_conv case_prod_beta intro!: filter_cong)
    subgoal
      by (rule gateway_case [where ep = "''/predict/risk/'' @ py_str e (dict_get args ''patient_id'')" and m = "''GET''" and d = "JNull" and p = "JNull"])
         (auto simp: exec_simps spec_method_def path_table declared_table rest_simps sublist_skip sublist_skip_append
            filter_empty_conv empty_filter_conv case_prod_beta intro!: filter_cong)
    subgoal
      by (rule gateway_case [where ep = "''/alerts/''" and m = "''GET''" and d = "JNull" and p = "JNull"])
         (auto simp: exec_simps spec_method_def path_table declared_table rest_simps sublist_skip sublist_skip_append
            filter_empty_conv empty_filter_conv case_prod_beta intro!: filter_cong)
    subgoal
      by (rule gateway_case [where ep = "''/staff/''" and m = "''GET''" and d = "JNull" and p = "JDict args"])
         (auto simp: exec_simps spec_method_def path_table declared_table rest_simps sublist_skip sublist_skip_append
            filter_empty_conv empty_filter_conv case_prod_beta intro!: filter_cong)
    subgoal
      by (rule gateway_case [where ep = "''/staff/'' @ py_str e (dict_get args ''staff_id'')" and m = "''GET''" and d = "JNull" and p = "JNull"])
         (auto simp: exec_simps spec_method_def path_table declared_table rest_simps sublist_skip sublist_skip_append
            filter_empty_conv empty_filter_conv case_prod_beta intro!: filter_cong)
    subgoal
      by (rule gateway_case [where ep = "''/staff/'' @ py_str e (dict_get args ''staff_id'') @ ''/schedule''" and m = "''GET''" and d = "JNull" and p = "JDict (filter (\<lambda>(k, v). k \<noteq> ''staff_id'' \<and> v \<noteq> JNull) args)"])
         (auto simp: exec_simps spec_method_def path_table declared_table rest_simps sublist_skip sublist_skip_append
            filter_empty_conv empty_filter_conv case_prod_beta intro!: filter_cong)
    subgoal
      by (rule gateway_case [where ep = "''/iotData/''" and m = "''GET''" and d = "JNull" and p = "JNull"])
         (auto simp: exec_simps spec_method_def path_table declared_table rest_simps sublist_skip sublist_skip_append
            filter_empty_conv empty_filter_conv case_prod_beta intro!: filter_cong)
    subgoal
      by (rule gateway_case [where ep = "''/iotData/'' @ py_str e (dict_get args ''device_id'')" and m = "''GET''" and d = "JNull" and p = "JNull"])
         (auto simp: exec_simps spec_method_def path_table declared_table rest_simps sublist_skip sublist_skip_append
            filter_empty_conv empty_filter_conv case_prod_beta intro!: filter_cong)
    subgoal
      by (rule gateway_case [where ep = "''/iotData/'' @ py_str e (dict_get args ''device_id'') @ ''/vitals/latest''" and m = "''GET''" and d = "JNull" and p = "JNull"])
         (auto simp: exec_simps spec_method_def path_table declared_table rest_simps sublist_skip sublist_skip_append
            filter_empty_conv empty_filter_conv case_prod_beta intro!: filter_cong)
    subgoal
      by (rule gateway_case [where ep = "''/anomalies/detect/'' @ py_str e (dict_get args ''monitor_id'')" and m = "''GET''" and d = "JNull" and p = "JNull"])
         (auto simp: exec_simps spec_method_def path_table declared_table rest_simps sublist_skip sublist_skip_append
            filter_empty_conv empty_filter_conv case_prod_beta intro!: filter_cong)
    subgoal
      by (rule gateway_case [where ep = "''/anomalies/''" and m = "''GET''" and d = "JNull" and p = "JDict args"])
         (auto simp: exec_simps spec_method_def path_table declared_table rest_simps sublist_skip sublist_skip_append
            filter_empty_conv empty_filter_conv case_prod_beta intro!: filter_cong)
    subgoal
      by (rule gateway_case [where ep = "''/rooms/''" and m = "''GET''" and d = "JNull" and p = "JNull"])
         (auto simp: exec_simps spec_method_def path_table declared_table rest_simps sublist_skip sublist_skip_append
            filter_empty_conv empty_filter_conv case_prod_beta intro!: filter_cong)
    subgoal
      by (rule gateway_case [where ep = "''/rooms/'' @ py_str e (dict_get args ''room_id'')" and m = "''GET''" and d = "JNull" and p = "JNull"])
         (auto simp: exec_simps spec_method_def path_table declared_table rest_simps sublist_skip sublist_skip_append
            filter_empty_conv empty_filter_conv case_prod_beta intro!: filter_cong)
    subgoal
      by (rule gateway_case [where ep = "''/rooms/'' @ py_str e (dict_get args ''room_id'') @ ''/assign-patient/'' @ py_str e (dict_get args ''patient_id'')" and m = "''POST''" and d = "JNull" and p = "JNull"])
         (auto simp: exec_simps spec_method_def path_table declared_table query_simps sublist_skip
            sublist_skip_append assign_room_body assign_bed_body)
    subgoal
      by (rule gateway_case [where ep = "''/beds/''" and m = "''GET''" and d = "JNull" and p = "JNull"])
         (auto simp: exec_simps spec_method_def path_table declared_table rest_simps sublist_skip sublist_skip_append
            filter_empty_conv empty_filter_conv case_prod_beta intro!: filter_cong)
    subgoal
      by (rule gateway_case [where ep = "''/beds/'' @ py_str e (dict_get args ''bed_id'')" and m = "''GET''" and d = "JNull" and p = "JNull"])
         (auto simp: exec_simps spec_method_def path_table declared_table rest_simps sublist_skip sublist_skip_append
            filter_empty_conv empty_filter_conv case_prod_beta intro!: filter_cong)
    subgoal
      by (rule gateway_case [where ep = "''/beds/'' @ py_str e (dict_get args ''bed_id'') @ ''/assign-patient/'' @ py_str e (dict_get args ''patient_id'')" and m = "''POST''" and d = "JNull" and p = "JNull"])
         (auto simp: exec_simps spec_method_def path_table declared_table query_simps sublist_skip
            sublist_skip_append assign_room_body assign_bed_body)
    subgoal
      by (rule gateway_case [where ep = "''/simulation/status''" and m = "''GET''" and d = "JNull" and p = "JNull"])
         (auto simp: exec_simps spec_method_def path_table declared_table rest_simps sublist_skip sublist_skip_append
            filter_empty_conv empty_filter_conv case_prod_beta intro!: filter_cong)
  done

theorem gateway_one_call_witness:
  "JStr ''assign_patient_to_room'' \<in> set catalog_names \<and>
   distinct (map fst [(''room_id'', JStr ''R1''), (''patient_id'', JStr ''P1'')]) \<and>
   execute_hospital_function hospital_404 default_agent (JStr ''assign_patient_to_room'')
       (JDict [(''room_id'', JStr ''R1''), (''patient_id'', JStr ''P1'')]) [] =
     (Inr (JDict [(''error'', JStr ''API call failed: 404 Client Error: Not Found'')]),
      [\<lparr>http_method = ''POST'',
        url = ''https://dt-agent-api.onrender.com//rooms/R1/assign-patient/P1'',
        params = JNull, json_body = JNull, data = JNull, headers = []\<rparr>])"
proof -
  let ?args = "[(''room_id'', JStr ''R1''), (''patient_id'', JStr ''P1'')]"
  let ?run = "execute_hospital_function hospital_404 default_agent
                (JStr ''assign_patient_to_room'') (JDict ?args) []"
  have h: "JStr ''assign_patient_to_room'' \<in> set catalog_names"
    by (simp add: catalog_names_eq)
  have d: "distinct (map fst ?args)"
    by simp
  from gateway_one_call [OF h, of hospital_404 default_agent ?args "[]"]
  obtain r outcome where one: "?run = (outcome, [] @ [r])"
    and err: "\<forall>resp msg. respond hospital_404 [] r = Inr resp \<longrightarrow>
                http_error resp = Some msg \<longrightarrow> outcome = Inr (api_error msg)"
    by blast
  have sent: "snd ?run =
      [\<lparr>http_method = ''POST'',
        url = ''https://dt-agent-api.onrender.com//rooms/R1/assign-patient/P1'',
        params = JNull, json_body = JNull, data = JNull, headers = []\<rparr>]"
    by (simp add: exec_simps make_hospital_api_call_def hospital_request_def fetch_json_def
          http_send_def raise_for_status_def hospital_404_def default_agent_def
          SmartHospitalAgent_def py_str_def dict_get_def api_error_def)
  have "outcome = Inr (api_error ''404 Client Error: Not Found'')"
    using err by (simp add: hospital_404_def)
  with one sent h d show ?thesis
    by (simp add: api_error_def)
qed

section \<open>The extractor: keys of the bundle and failures of the backend\<close>












section \<open>Unknown tools\<close>

text \<open>
  C3. For every tool name that the Tool Catalog does not declare and for every
  argument value, the gateway returns a value (it raises nothing), the value is the
  error dict that names the unknown function, and the log of HTTP requests is left as
  it was: no call reaches the hospital backend.
\<close>

theorem unknown_tool_error_no_call:
  assumes "function_name \<notin> set catalog_names"
  shows "execute_hospital_function e a function_name arguments log =
           (Inr (JDict [(''error'', JStr (''Unknown function: '' @ py_str e function_name))]), log)"
  using assms
  by (simp add: catalog_names_eq execute_hospital_function_def io_pure_def)

theorem unknown_tool_error_no_call_witness:
  "JStr ''delete_patient'' \<notin> set catalog_names \<and>
   execute_hospital_function unreachable default_agent (JStr ''delete_patient'')
       (JDict [(''patient_id'', JStr ''P1'')]) [] =
     (Inr (JDict [(''error'', JStr ''Unknown function: delete_patient'')]), [])"
proof -
  have h: "JStr ''delete_patient'' \<notin> set catalog_names"
    by (simp add: catalog_names_eq)
  show ?thesis
    using h unknown_tool_error_no_call [OF h, of unreachable default_agent "JDict [(''patient_id'', JStr ''P1'')]" "[]"]
    by (simp add: py_str_def)
qed

section \<open>The log only grows\<close>

lemma fetch_json_log: "snd (fetch_json e r log) = log @ [r]"
  by (simp add: fetch_json_def io_bind_def io_pure_def http_send_def split: sum.splits)

lemma fetch_json_value:
  assumes "fetch_json e r log = (Inr v, log')"
  shows "log' = log @ [r] \<and> (\<exists>resp. respond e log r = Inr resp \<and> http_error resp = None \<and> json_result resp = Inr v)"
  using assms
  by (auto simp: fetch_json_def io_bind_def io_pure_def http_send_def raise_for_status_def
        split: sum.splits option.splits)





lemma fetch_json_pair: "fetch_json e r log = (x, log') \<Longrightarrow> log' = log @ [r]"
  using fetch_json_log [of e r log] by simp




lemma io_bind_InrE:
  assumes "io_bind m f log = (Inr y, log')"
  obtains v l where "m log = (Inr v, l)" and "f v l = (Inr y, log')"
  using assms by (auto simp: io_bind_def split: prod.splits sum.splits)

lemma io_pure_InrE:
  assumes "io_pure r log = (Inr y, log')"
  obtains "r = Inr y" and "log' = log"
  using assms by (simp add: io_pure_def)

lemma exc_bind_Inr: "exc_bind r f = Inr y \<longleftrightarrow> (\<exists>v. r = Inr v \<and> f v = Inr y)"
  by (cases r) (simp_all add: exc_bind_def)

lemma call_names_Inr:
  "call_names tcs = Inr ns \<Longrightarrow> list_all2 (\<lambda>tc n. call_name tc = Inr n) tcs ns"
  by (induction tcs arbitrary: ns) (auto simp: exc_bind_Inr)

lemma resolve_success:
  "resolve_tool_calls e a tcs acc log = (Inr results, log') \<Longrightarrow>
     \<exists>new. results = acc @ new \<and>
       list_all2 (\<lambda>tc t. \<exists>call_id result. py_item tc ''id'' = Inr call_id \<and>
                            t = tool_turn e call_id result) tcs new"
proof (induction tcs arbitrary: acc log)
  case Nil
  then show ?case by (auto elim!: io_pure_InrE)
next
  case (Cons tc tcs)
  from Cons.prems obtain function_name function_args result call_id l1 where
    cid: "py_item tc ''id'' = Inr call_id"
    and rest: "resolve_tool_calls e a tcs (acc @ [tool_turn e call_id result]) l1 = (Inr results, log')"
    by (auto elim!: io_bind_InrE io_pure_InrE)
  from Cons.IH [OF rest] obtain new where
    "results = (acc @ [tool_turn e call_id result]) @ new"
    and "list_all2 (\<lambda>tc t. \<exists>call_id result. py_item tc ''id'' = Inr call_id \<and>
                            t = tool_turn e call_id result) tcs new"
    by blast
  with cid show ?case
    by (intro exI [of _ "tool_turn e call_id result # new"]) auto
qed

lemma run_model_success:
  assumes "run_model e a messages payload log1 = (Inr res, log')"
  shows "\<exists>response_data message.
     fetch_json e (openrouter_request a payload) log1 =
       (Inr response_data, log1 @ [openrouter_request a payload]) \<and>
     first_choice_message response_data = Inr message \<and>
     ((wants_tools a message = Inr False \<and>
       py_item message ''content'' = Inr (response res) \<and>
       tool_calls_made res = 0 \<and> tools_used res = [] \<and>
       conversation_history res = messages \<and>
       log' = log1 @ [openrouter_request a payload]) \<or>
      (wants_tools a message = Inr True \<and>
       (\<exists>tool_calls tool_results log2 final_data final_message.
          exc_bind (py_item message ''tool_calls'') py_iter = Inr tool_calls \<and>
          resolve_tool_calls e a tool_calls [] (log1 @ [openrouter_request a payload]) =
            (Inr tool_results, log2) \<and>
          fetch_json e (openrouter_request a
              (dict_set payload ''messages'' (JList (messages @ [message] @ tool_results)))) log2 =
            (Inr final_data, log') \<and>
          first_choice_message final_data = Inr final_message \<and>
          py_item final_message ''content'' = Inr (response res) \<and>
          call_names tool_calls = Inr (tools_used res) \<and>
          tool_calls_made res = length tool_results \<and>
          conversation_history res = messages @ [message] @ tool_results)))"
proof -
  from assms obtain response_data message wanted l1 where
    f1: "fetch_json e (openrouter_request a payload) log1 = (Inr response_data, l1)"
    and m: "first_choice_message response_data = Inr message"
    and w: "wants_tools a message = Inr wanted"
    and rest: "(if wanted then
         io_bind (io_pure (exc_bind (py_item message ''tool_calls'') py_iter)) (\<lambda>tool_calls.
         io_bind (resolve_tool_calls e a tool_calls []) (\<lambda>tool_results.
         io_bind (fetch_json e (openrouter_request a
                    (dict_set payload ''messages'' (JList (messages @ [message] @ tool_results))))) (\<lambda>final_data.
         io_bind (io_pure (exc_bind (first_choice_message final_data) (\<lambda>m. py_item m ''content''))) (\<lambda>answer.
         io_bind (io_pure (call_names tool_calls)) (\<lambda>used.
           io_pure (Inr \<lparr>response = answer,
                         tool_calls_made = length tool_results,
                         tools_used = used,
                         conversation_history = messages @ [message] @ tool_results\<rparr>))))))
       else
         io_bind (io_pure (py_item message ''content'')) (\<lambda>answer.
           io_pure (Inr \<lparr>response = answer,
                         tool_calls_made = 0,
                         tools_used = [],
                         conversation_history = messages\<rparr>))) l1 = (Inr res, log')"
    unfolding run_model_def by (elim io_bind_InrE io_pure_InrE) auto
  have l1: "l1 = log1 @ [openrouter_request a payload]"
    using f1 by (rule fetch_json_pair)
  show ?thesis
  proof (cases wanted)
    case False
    with rest obtain answer where "py_item message ''content'' = Inr answer"
      and "res = \<lparr>response = answer, tool_calls_made = 0, tools_used = [],
                  conversation_history = messages\<rparr>" and "log' = l1"
      by (auto elim!: io_bind_InrE io_pure_InrE)
    with f1 m w False l1 show ?thesis by auto
  next
    case True
    with rest obtain tool_calls tool_results log2 final_data answer used where
      tc: "exc_bind (py_item message ''tool_calls'') py_iter = Inr tool_calls"
      and rs: "resolve_tool_calls e a tool_calls [] l1 = (Inr tool_results, log2)"
      and f2: "fetch_json e (openrouter_request a
              (dict_set payload ''messages'' (JList (messages @ [message] @ tool_results)))) log2 =
            (Inr final_data, log')"
      and an: "exc_bind (first_choice_message final_data) (\<lambda>m. py_item m ''content'') = Inr answer"
      and us: "call_names tool_calls = Inr used"
      and res: "res = \<lparr>response = answer, tool_calls_made = length tool_results, tools_used = used,
                  conversation_history = messages @ [message] @ tool_results\<rparr>"
      by (auto elim!: io_bind_InrE io_pure_InrE)
    from an obtain final_message where "first_choice_message final_data = Inr final_message"
      and "py_item final_message ''content'' = Inr answer"
      by (auto simp: exc_bind_Inr)
    with f1 m w True l1 tc rs f2 us res show ?thesis by auto
  qed
qed

section \<open>Three concrete runs\<close>

lemmas run_defs = chat_with_tools_def system_message_for_def build_messages_def build_payload_def
  run_model_def io_bind_def io_pure_def fetch_json_def http_send_def raise_for_status_def
  openrouter_request_def first_choice_message_def exc_bind_def py_item_def py_first_def
  py_get_def py_iter_def py_truthy_def wants_tools_def dict_set_def dict_get_def Let_def

lemma hello_no_keyword: "\<not> any_in hospital_keywords (lower ''Hello'')"
  by (simp add: any_in_def hospital_keywords_def lower_def lower_char_def)

lemma plain_run:
  "chat_with_tools chatty default_agent ''Hello'' None [] =
     (Inr \<lparr>response = JStr ''Hello! How can I help?'',
           tool_calls_made = 0,
           tools_used = [],
           conversation_history = [turn ''system'' standard_system_message, turn ''user'' ''Hello'']\<rparr>,
      [openrouter_request default_agent
         [(''model'', JStr ''tngtech/deepseek-r1t2-chimera:free''),
          (''messages'', JList [turn ''system'' standard_system_message, turn ''user'' ''Hello''])]])"
  by (simp add: run_defs hello_no_keyword chatty_def llm_reply_def default_agent_def SmartHospitalAgent_def)


lemma tool_run:
  "chat_with_tools tool_backend tool_agent ''Any alerts?'' None [] =
     (Inr \<lparr>response = JStr ''There are no active alerts.'',
           tool_calls_made = 2,
           tools_used = [JStr ''get_current_alerts'', JStr ''get_current_alerts''],
           conversation_history =
             [turn ''system'' standard_system_message, turn ''user'' ''Any alerts?'', first_message,
              tool_turn tool_backend (JStr ''call_1'') (JList []),
              tool_turn tool_backend (JStr ''call_2'') (JList [])]\<rparr>,
      [openrouter_request tool_agent
         [(''model'', JStr ''tngtech/deepseek-r1t2-chimera:free''),
          (''messages'', JList [turn ''system'' standard_system_message, turn ''user'' ''Any alerts?'']),
          (''tools'', JList define_hospital_tools),
          (''tool_choice'', JStr ''auto'')],
       \<lparr>http_method = ''GET'', url = ''https://dt-agent-api.onrender.com//alerts/'',
         params = JNull, json_body = JNull, data = JNull, headers = []\<rparr>,
       \<lparr>http_method = ''GET'', url = ''https://dt-agent-api.onrender.com//alerts/'',
         params = JNull, json_body = JNull, data = JNull, headers = []\<rparr>,
       openrouter_request tool_agent
         [(''model'', JStr ''tngtech/deepseek-r1t2-chimera:free''),
          (''messages'', JList
             [turn ''system'' standard_system_message, turn ''user'' ''Any alerts?'', first_message,
              tool_turn tool_backend (JStr ''call_1'') (JList []),
              tool_turn tool_backend (JStr ''call_2'') (JList [])]),
          (''tools'', JList define_hospital_tools),
          (''tool_choice'', JStr ''auto'')]])"
  by (simp add: run_defs tool_backend_def llm_reply_def tool_agent_def SmartHospitalAgent_def
        first_message_def second_message_def alerts_call_def call_name_def call_arguments_def
        json_loads_def execute_hospital_function_def make_hospital_api_call_def
        hospital_request_def tool_turn_def)

section \<open>What a successful chat went through\<close>

lemma map_of_dict_set:
  "map_of (dict_set d k v) k' = (if k' = k then Some v else map_of d k')"
proof (cases "k \<in> set (map fst d)")
  case False
  then have "map_of d k = None"
    by (simp add: map_of_eq_None_iff)
  with False show ?thesis
    by (auto simp: dict_set_def map_add_def split: option.splits)
next
  case True
  have "map_of (map (\<lambda>(k', v'). if k' = k then (k', v) else (k', v')) d) k' =
          (if k' = k then (if k \<in> set (map fst d) then Some v else None) else map_of d k')"
    by (induction d) (force split: if_splits)+
  with True show ?thesis
    by (simp add: dict_set_def)
qed

lemma payload_messages:
  "map_of (build_payload a messages) ''messages'' = Some (JList messages)"
  by (simp add: build_payload_def Let_def map_of_dict_set)


lemma role_tool_turn: "role_of (tool_turn e call_id result) = JStr ''tool''"
  by (simp add: role_of_def tool_turn_def dict_get_def)

lemma chat_success:
  assumes "chat_with_tools e a user_message history log = (Inr res, log')"
  obtains system_message log1 where
    "system_message_for e a user_message log = (system_message, log1)"
    "run_model e a (build_messages system_message (case history of None \<Rightarrow> [] | Some h \<Rightarrow> h) user_message)
       (build_payload a (build_messages system_message (case history of None \<Rightarrow> [] | Some h \<Rightarrow> h) user_message))
       log1 = (Inr res, log')"
  using assms by (auto simp: chat_with_tools_def Let_def split: prod.splits)

lemma answers_length: "answers e tcs rs \<Longrightarrow> length rs = length tcs"
  by (simp add: answers_def list_all2_lengthD)

lemma answers_dicts:
  assumes "answers e tcs rs" and "tc \<in> set tcs"
  shows "\<exists>d. tc = JDict d"
proof -
  from assms obtain call_id where "py_item tc ''id'' = Inr call_id"
    unfolding answers_def by (auto simp: list_all2_conv_all_nth in_set_conv_nth)
  then show ?thesis
    by (cases tc) (simp_all add: py_item_def)
qed

lemma tool_path_calls:
  assumes w: "wants_tools a message = Inr True"
    and it: "exc_bind (py_item message ''tool_calls'') py_iter = Inr tool_calls"
    and an: "answers e tool_calls results"
  shows "use_function_calling a \<and> tool_calls \<noteq> [] \<and> py_item message ''tool_calls'' = Inr (JList tool_calls)"
proof -
  from w have ufc: "use_function_calling a"
    by (auto simp: wants_tools_def split: if_splits)
  from it obtain v where v: "py_item message ''tool_calls'' = Inr v" and iter: "py_iter v = Inr tool_calls"
    by (auto simp: exc_bind_Inr)
  from v obtain d where d: "message = JDict d" and mv: "map_of d ''tool_calls'' = Some v"
    by (cases message) (auto simp: py_item_def split: option.splits)
  from w ufc d mv have truthy: "py_truthy v"
    by (simp add: wants_tools_def py_get_def dict_get_def exc_bind_def)
  have "v = JList tool_calls \<and> tool_calls \<noteq> []"
  proof (cases v)
    case (JList l)
    with iter truthy show ?thesis by (simp add: py_iter_def py_truthy_def)
  next
    case (JStr s)
    with truthy obtain c cs where "s = c # cs"
      by (cases s) (simp_all add: py_truthy_def)
    with JStr iter have "JStr [c] \<in> set tool_calls"
      by (auto simp: py_iter_def)
    from answers_dicts [OF an this] show ?thesis by simp
  next
    case (JDict kvs)
    with truthy obtain kv rest where "kvs = kv # rest"
      by (cases kvs) (simp_all add: py_truthy_def)
    with JDict iter have "JStr (fst kv) \<in> set tool_calls"
      by (auto simp: py_iter_def)
    from answers_dicts [OF an this] show ?thesis by simp
  qed (use iter in \<open>simp_all add: py_iter_def\<close>)
  with ufc v show ?thesis by simp
qed

lemma resolve_answers:
  assumes "resolve_tool_calls e a tcs [] log = (Inr results, log')"
  shows "answers e tcs results"
  using resolve_success [OF assms] by (simp add: answers_def)

lemma adds_pure: "adds_at_most n (io_pure r)"
  by (simp add: adds_at_most_def io_pure_def)

lemma adds_after_pure:
  assumes "\<And>v. adds_at_most n (f v)"
  shows "adds_at_most n (io_bind (io_pure r) f)"
proof (cases r)
  case (Inl x)
  then show ?thesis by (simp add: adds_at_most_def io_bind_def io_pure_def)
next
  case (Inr v)
  with assms [of v] show ?thesis by (simp add: adds_at_most_def io_bind_def io_pure_def)
qed

lemma adds_call: "adds_at_most 1 (make_hospital_api_call e a ep meth d p)"
  by (auto simp: adds_at_most_def make_hospital_api_call_def
        split: option.splits prod.splits sum.splits raised.splits
        dest!: fetch_json_pair)

lemma adds_if: "adds_at_most n m \<Longrightarrow> adds_at_most n k \<Longrightarrow> adds_at_most n (if c then m else k)"
  by simp

lemma adds_execute: "adds_at_most 1 (execute_hospital_function e a n args)"
  unfolding execute_hospital_function_def
  by (intro adds_if adds_after_pure adds_pure adds_call)

lemma adds_bind:
  assumes "adds_at_most n m" and "\<And>v. adds_at_most k (f v)"
  shows "adds_at_most (n + k) (io_bind m f)"
proof (unfold adds_at_most_def, intro allI)
  fix log
  from assms(1) obtain ext where m: "snd (m log) = log @ ext" and n: "length ext \<le> n"
    unfolding adds_at_most_def by blast
  show "\<exists>ext. snd (io_bind m f log) = log @ ext \<and> length ext \<le> n + k"
  proof (cases "m log")
    case (Pair x log')
    with m have l: "log' = log @ ext" by simp
    show ?thesis
    proof (cases x)
      case (Inl b)
      with Pair l n show ?thesis by (simp add: io_bind_def)
    next
      case (Inr v)
      from assms(2) [of v] obtain ext' where "snd (f v log') = log' @ ext'" and "length ext' \<le> k"
        unfolding adds_at_most_def by blast
      with Pair Inr l n show ?thesis
        by (intro exI [of _ "ext @ ext'"]) (simp add: io_bind_def)
    qed
  qed
qed

lemma adds_resolve: "adds_at_most (length tcs) (resolve_tool_calls e a tcs acc)"
proof (induction tcs arbitrary: acc)
  case Nil
  show ?case by (simp add: adds_pure)
next
  case (Cons tc tcs)
  have "adds_at_most (1 + length tcs)
          (io_bind (execute_hospital_function e a function_name function_args) (\<lambda>result.
           io_bind (io_pure (py_item tc ''id'')) (\<lambda>call_id.
             resolve_tool_calls e a tcs (acc @ [tool_turn e call_id result]))))"
    for function_name function_args
    by (intro adds_bind adds_execute adds_after_pure Cons.IH)
  then show ?case
    unfolding resolve_tool_calls.simps
    by (intro adds_after_pure) simp
qed

lemma resolve_length:
  assumes "resolve_tool_calls e a tcs acc log = (x, log')"
  shows "length log' \<le> length log + length tcs"
proof -
  from adds_resolve [of tcs e a acc] obtain ext where
    "snd (resolve_tool_calls e a tcs acc log) = log @ ext" and "length ext \<le> length tcs"
    unfolding adds_at_most_def by blast
  with assms show ?thesis by simp
qed

lemma system_message_tools:
  "use_function_calling a \<Longrightarrow> system_message_for e a user_message log = (standard_system_message, log)"
  by (simp add: system_message_for_def)

lemma chat_success_cases:
  fixes history :: "json list option"
  defines "H \<equiv> (case history of None \<Rightarrow> [] | Some h \<Rightarrow> h)"
  assumes run: "chat_with_tools e a user_message history log = (Inr res, log')"
  obtains (plain) system_message log1 resp response_data message where
      "system_message_for e a user_message log = (system_message, log1)"
      "log' = log1 @ [openrouter_request a (build_payload a (build_messages system_message H user_message))]"
      "respond e log1 (openrouter_request a (build_payload a (build_messages system_message H user_message))) = Inr resp"
      "json_result resp = Inr response_data"
      "first_choice_message response_data = Inr message"
      "py_item message ''content'' = Inr (response res)"
      "tool_calls_made res = 0"
      "tools_used res = []"
      "conversation_history res = build_messages system_message H user_message"
  | (tools) resp response_data message tool_calls tool_results log2 resp2 final_data final_message where
      "use_function_calling a"
      "respond e log (openrouter_request a (build_payload a (build_messages standard_system_message H user_message))) = Inr resp"
      "json_result resp = Inr response_data"
      "first_choice_message response_data = Inr message"
      "py_item message ''tool_calls'' = Inr (JList tool_calls)"
      "tool_calls \<noteq> []"
      "resolve_tool_calls e a tool_calls []
         (log @ [openrouter_request a (build_payload a (build_messages standard_system_message H user_message))]) =
         (Inr tool_results, log2)"
      "answers e tool_calls tool_results"
      "log' = log2 @ [openrouter_request a
          (dict_set (build_payload a (build_messages standard_system_message H user_message)) ''messages''
             (JList (build_messages standard_system_message H user_message @ [message] @ tool_results)))]"
      "respond e log2 (openrouter_request a
          (dict_set (build_payload a (build_messages standard_system_message H user_message)) ''messages''
             (JList (build_messages standard_system_message H user_message @ [message] @ tool_results)))) = Inr resp2"
      "json_result resp2 = Inr final_data"
      "first_choice_message final_data = Inr final_message"
      "py_item final_message ''content'' = Inr (response res)"
      "call_names tool_calls = Inr (tools_used res)"
      "tool_calls_made res = length tool_calls"
      "conversation_history res = build_messages standard_system_message H user_message @ [message] @ tool_results"
proof -
  from run obtain system_message log1 where
    sm: "system_message_for e a user_message log = (system_message, log1)"
    and rm: "run_model e a (build_messages system_message H user_message)
       (build_payload a (build_messages system_message H user_message)) log1 = (Inr res, log')"
    unfolding H_def by (rule chat_success)
  let ?M = "build_messages system_message H user_message"
  let ?P = "build_payload a ?M"
  from run_model_success [OF rm] obtain response_data message where
    f1: "fetch_json e (openrouter_request a ?P) log1 = (Inr response_data, log1 @ [openrouter_request a ?P])"
    and fm: "first_choice_message response_data = Inr message"
    and alt: "(wants_tools a message = Inr False \<and>
       py_item message ''content'' = Inr (response res) \<and>
       tool_calls_made res = 0 \<and> tools_used res = [] \<and>
       conversation_history res = ?M \<and>
       log' = log1 @ [openrouter_request a ?P]) \<or>
      (wants_tools a message = Inr True \<and>
       (\<exists>tool_calls tool_results log2 final_data final_message.
          exc_bind (py_item message ''tool_calls'') py_iter = Inr tool_calls \<and>
          resolve_tool_calls e a tool_calls [] (log1 @ [openrouter_request a ?P]) =
            (Inr tool_results, log2) \<and>
          fetch_json e (openrouter_request a
              (dict_set ?P ''messages'' (JList (?M @ [message] @ tool_results)))) log2 =
            (Inr final_data, log') \<and>
          first_choice_message final_data = Inr final_message \<and>
          py_item final_message ''content'' = Inr (response res) \<and>
          call_names tool_calls = Inr (tools_used res) \<and>
          tool_calls_made res = length tool_results \<and>
          conversation_history res = ?M @ [message] @ tool_results))"
    by blast
  from fetch_json_value [OF f1] obtain resp where
    r1: "respond e log1 (openrouter_request a ?P) = Inr resp" and j1: "json_result resp = Inr response_data"
    by blast
  from alt show thesis
  proof (elim disjE conjE exE)
    assume "wants_tools a message = Inr False"
      and "py_item message ''content'' = Inr (response res)"
      and "tool_calls_made res = 0" and "tools_used res = []"
      and "conversation_history res = ?M"
      and "log' = log1 @ [openrouter_request a ?P]"
    with sm r1 j1 fm show thesis
      by (intro plain [of system_message log1 resp response_data message])
  next
    fix tool_calls tool_results log2 final_data final_message
    assume w: "wants_tools a message = Inr True"
      and it: "exc_bind (py_item message ''tool_calls'') py_iter = Inr tool_calls"
      and rs: "resolve_tool_calls e a tool_calls [] (log1 @ [openrouter_request a ?P]) =
            (Inr tool_results, log2)"
      and f2: "fetch_json e (openrouter_request a
              (dict_set ?P ''messages'' (JList (?M @ [message] @ tool_results)))) log2 =
            (Inr final_data, log')"
      and m2: "first_choice_message final_data = Inr final_message"
      and c2: "py_item final_message ''content'' = Inr (response res)"
      and us: "call_names tool_calls = Inr (tools_used res)"
      and n: "tool_calls_made res = length tool_results"
      and ch: "conversation_history res = ?M @ [message] @ tool_results"
    have an: "answers e tool_calls tool_results"
      using rs by (rule resolve_answers)
    from tool_path_calls [OF w it an] have ufc: "use_function_calling a"
      and ne: "tool_calls \<noteq> []" and tc: "py_item message ''tool_calls'' = Inr (JList tool_calls)"
      by simp_all
    from sm ufc have s: "system_message = standard_system_message" and l: "log1 = log"
      by (simp_all add: system_message_tools)
    from fetch_json_value [OF f2] obtain resp2 where
      l2: "log' = log2 @ [openrouter_request a
              (dict_set ?P ''messages'' (JList (?M @ [message] @ tool_results)))]"
      and r2: "respond e log2 (openrouter_request a
              (dict_set ?P ''messages'' (JList (?M @ [message] @ tool_results)))) = Inr resp2"
      and j2: "json_result resp2 = Inr final_data"
      by blast
    have len: "tool_calls_made res = length tool_calls"
      using n answers_length [OF an] by simp
    show thesis
      using ufc r1 j1 fm tc ne rs an l2 r2 j2 m2 c2 us len ch
      unfolding s l
      by (rule tools)
  qed
qed

section \<open>The returned history and the final answer\<close>

lemma last_build_messages: "last (build_messages s h u) = turn ''user'' u"
  by (simp add: build_messages_def)

lemma answers_roles:
  assumes "answers e tcs rs" and "t \<in> set rs"
  shows "role_of t = JStr ''tool''"
  using assms
  by (auto simp: answers_def list_all2_conv_all_nth in_set_conv_nth role_tool_turn)

text \<open>
  C10. For every request that succeeds, in either mode, the conversation history handed
  back is the message list of the last submission to the LLM backend, the one the final
  answer is the reply to; the answer itself is not added to it as a turn. Without a
  tool round-trip the returned history ends with the new user turn, and after a tool
  round-trip it ends with a tool-result turn.
\<close>

theorem returned_history_lacks_answer:
  assumes "chat_with_tools e a user_message history log = (Inr res, log')"
  shows "\<exists>log0 request payload resp reply final_message.
           log' = log0 @ [request] \<and>
           url request = openrouter_url a \<and>
           data request = JDict payload \<and>
           map_of payload ''messages'' = Some (JList (conversation_history res)) \<and>
           respond e log0 request = Inr resp \<and>
           json_result resp = Inr reply \<and>
           first_choice_message reply = Inr final_message \<and>
           py_item final_message ''content'' = Inr (response res) \<and>
           (tool_calls_made res = 0 \<longrightarrow> last (conversation_history res) = turn ''user'' user_message) \<and>
           (tool_calls_made res \<noteq> 0 \<longrightarrow> role_of (last (conversation_history res)) = JStr ''tool'')"
  using assms
proof (cases rule: chat_success_cases)
  case (plain system_message log1 resp response_data message)
  let ?P = "build_payload a (build_messages system_message (case history of None \<Rightarrow> [] | Some h \<Rightarrow> h) user_message)"
  show ?thesis
    apply (rule exI [of _ log1], rule exI [of _ "openrouter_request a ?P"], rule exI [of _ ?P])
    apply (rule exI [of _ resp], rule exI [of _ response_data], rule exI [of _ message])
    using plain
    by (simp add: openrouter_request_def payload_messages last_build_messages)
next
  case (tools resp response_data message tool_calls tool_results log2 resp2 final_data final_message)
  let ?M = "build_messages standard_system_message (case history of None \<Rightarrow> [] | Some h \<Rightarrow> h) user_message"
  let ?P = "dict_set (build_payload a ?M) ''messages'' (JList (?M @ [message] @ tool_results))"
  have ne: "tool_results \<noteq> []"
    using tools(6) answers_length [OF tools(8)] by auto
  then have "last tool_results \<in> set tool_results"
    by simp
  from answers_roles [OF tools(8) this] ne
  have "role_of (last (conversation_history res)) = JStr ''tool''"
    by (simp add: tools(16))
  moreover have "tool_calls_made res \<noteq> 0"
    using tools(6) by (simp add: tools(15))
  ultimately show ?thesis
    apply -
    apply (rule exI [of _ log2], rule exI [of _ "openrouter_request a ?P"], rule exI [of _ ?P])
    apply (rule exI [of _ resp2], rule exI [of _ final_data], rule exI [of _ final_message])
    using tools
    by (simp add: openrouter_request_def map_of_dict_set)
qed

theorem returned_history_lacks_answer_witness:
  "chat_with_tools chatty default_agent ''Hello'' None [] =
     (Inr \<lparr>response = JStr ''Hello! How can I help?'',
           tool_calls_made = 0,
           tools_used = [],
           conversation_history = [turn ''system'' standard_system_message, turn ''user'' ''Hello'']\<rparr>,
      [openrouter_request default_agent
         [(''model'', JStr ''tngtech/deepseek-r1t2-chimera:free''),
          (''messages'', JList [turn ''system'' standard_system_message, turn ''user'' ''Hello''])]]) \<and>
   last [turn ''system'' standard_system_message, turn ''user'' ''Hello''] = turn ''user'' ''Hello''"
proof -
  from returned_history_lacks_answer [OF plain_run]
  have "last [turn ''system'' standard_system_message, turn ''user'' ''Hello''] = turn ''user'' ''Hello''"
    by simp
  with plain_run show ?thesis
    by simp
qed

text \<open>
  C7. After a tool round-trip the last request of the run is the second submission to
  the LLM backend, and the final answer is the text content of its reply, whatever
  else that reply holds: the tool invocations it may request are dispatched nowhere.
  Next to the two submissions, the run makes at most one hospital call per invocation
  of the first response.
\<close>

theorem second_response_is_final:
  assumes "chat_with_tools e a user_message history log = (Inr res, log')"
    and "tool_calls_made res \<noteq> 0"
  shows "\<exists>log2 request resp reply final_message.
           log' = log2 @ [request] \<and>
           url request = openrouter_url a \<and>
           respond e log2 request = Inr resp \<and>
           json_result resp = Inr reply \<and>
           first_choice_message reply = Inr final_message \<and>
           py_item final_message ''content'' = Inr (response res) \<and>
           length log' \<le> length log + tool_calls_made res + 2"
  using assms(1)
proof (cases rule: chat_success_cases)
  case (plain system_message log1 resp response_data message)
  with assms(2) show ?thesis by simp
next
  case (tools resp response_data message tool_calls tool_results log2 resp2 final_data final_message)
  let ?M = "build_messages standard_system_message (case history of None \<Rightarrow> [] | Some h \<Rightarrow> h) user_message"
  let ?P = "dict_set (build_payload a ?M) ''messages'' (JList (?M @ [message] @ tool_results))"
  from resolve_length [OF tools(7)] have "length log2 \<le> length log + 1 + length tool_calls"
    by simp
  then show ?thesis
    apply -
    apply (rule exI [of _ log2], rule exI [of _ "openrouter_request a ?P"])
    apply (rule exI [of _ resp2], rule exI [of _ final_data], rule exI [of _ final_message])
    using tools
    by (simp add: openrouter_request_def)
qed

theorem second_response_is_final_witness:
  "chat_with_tools tool_backend tool_agent ''Any alerts?'' None [] =
     (Inr \<lparr>response = JStr ''There are no active alerts.'',
           tool_calls_made = 2,
           tools_used = [JStr ''get_current_alerts'', JStr ''get_current_alerts''],
           conversation_history =
             [turn ''system'' standard_system_message, turn ''user'' ''Any alerts?'', first_message,
              tool_turn tool_backend (JStr ''call_1'') (JList []),
              tool_turn tool_backend (JStr ''call_2'') (JList [])]\<rparr>,
      snd (chat_with_tools tool_backend tool_agent ''Any alerts?'' None [])) \<and>
   (2::nat) \<noteq> 0 \<and>
   py_item second_message ''tool_calls'' = Inr (JList [alerts_call ''call_3'']) \<and>
   py_item second_message ''content'' = Inr (JStr ''There are no active alerts.'') \<and>
   length (snd (chat_with_tools tool_backend tool_agent ''Any alerts?'' None [])) \<le> 4"
proof -
  have n: "tool_calls_made \<lparr>response = JStr ''There are no active alerts.'',
           tool_calls_made = 2,
           tools_used = [JStr ''get_current_alerts'', JStr ''get_current_alerts''],
           conversation_history =
             [turn ''system'' standard_system_message, turn ''user'' ''Any alerts?'', first_message,
              tool_turn tool_backend (JStr ''call_1'') (JList []),
              tool_turn tool_backend (JStr ''call_2'') (JList [])]\<rparr> \<noteq> 0"
    by simp
  from second_response_is_final [OF tool_run n]
  have "length (snd (chat_with_tools tool_backend tool_agent ''Any alerts?'' None [])) \<le> 4"
    by (auto simp: tool_run)
  then show ?thesis
    by (simp add: tool_run second_message_def py_item_def)
qed

section \<open>The result after a tool round-trip\<close>

text \<open>
  C9 (amended). On reaching DONE after a tool round-trip, the result holds the text
  content of the second response as the answer, a count equal to the number of
  invocation requests of the first response, the names of these requests in their
  order, one entry per invocation (so a tool that is invoked twice is listed twice),
  and the full updated conversation, which is the message list of the second
  submission.
\<close>

theorem done_result_after_tools:
  assumes "chat_with_tools e a user_message history log = (Inr res, log')"
    and "tool_calls_made res \<noteq> 0"
  shows "\<exists>request resp reply message tool_calls tool_results log2 request2 payload2 resp2 reply2 final_message.
           url request = openrouter_url a \<and>
           respond e log request = Inr resp \<and>
           json_result resp = Inr reply \<and>
           first_choice_message reply = Inr message \<and>
           py_item message ''tool_calls'' = Inr (JList tool_calls) \<and>
           tool_calls_made res = length tool_calls \<and>
           list_all2 (\<lambda>tc n. call_name tc = Inr n) tool_calls (tools_used res) \<and>
           answers e tool_calls tool_results \<and>
           conversation_history res =
             ([turn ''system'' standard_system_message] @
              (case history of None \<Rightarrow> [] | Some h \<Rightarrow> h) @
              [turn ''user'' user_message]) @ [message] @ tool_results \<and>
           log' = log2 @ [request2] \<and>
           url request2 = openrouter_url a \<and>
           data request2 = JDict payload2 \<and>
           map_of payload2 ''messages'' = Some (JList (conversation_history res)) \<and>
           respond e log2 request2 = Inr resp2 \<and>
           json_result resp2 = Inr reply2 \<and>
           first_choice_message reply2 = Inr final_message \<and>
           py_item final_message ''content'' = Inr (response res)"
  using assms(1)
proof (cases rule: chat_success_cases)
  case (plain system_message log1 resp response_data message)
  with assms(2) show ?thesis by simp
next
  case (tools resp response_data message tool_calls tool_results log2 resp2 final_data final_message)
  let ?M = "build_messages standard_system_message (case history of None \<Rightarrow> [] | Some h \<Rightarrow> h) user_message"
  let ?P = "dict_set (build_payload a ?M) ''messages'' (JList (?M @ [message] @ tool_results))"
  have names: "list_all2 (\<lambda>tc n. call_name tc = Inr n) tool_calls (tools_used res)"
    using tools(14) by (rule call_names_Inr)
  show ?thesis
    apply (rule exI [of _ "openrouter_request a (build_payload a ?M)"])
    apply (rule exI [of _ resp], rule exI [of _ response_data], rule exI [of _ message])
    apply (rule exI [of _ tool_calls], rule exI [of _ tool_results], rule exI [of _ log2])
    apply (rule exI [of _ "openrouter_request a ?P"], rule exI [of _ ?P])
    apply (rule exI [of _ resp2], rule exI [of _ final_data], rule exI [of _ final_message])
    using tools names
    by (simp add: openrouter_request_def map_of_dict_set build_messages_def)
qed

theorem done_result_after_tools_witness:
  "chat_with_tools tool_backend tool_agent ''Any alerts?'' None [] =
     (Inr \<lparr>response = JStr ''There are no active alerts.'',
           tool_calls_made = 2,
           tools_used = [JStr ''get_current_alerts'', JStr ''get_current_alerts''],
           conversation_history =
             [turn ''system'' standard_system_message, turn ''user'' ''Any alerts?'', first_message,
              tool_turn tool_backend (JStr ''call_1'') (JList []),
              tool_turn tool_backend (JStr ''call_2'') (JList [])]\<rparr>,
      snd (chat_with_tools tool_backend tool_agent ''Any alerts?'' None [])) \<and>
   (2::nat) \<noteq> 0 \<and>
   py_item first_message ''tool_calls'' = Inr (JList [alerts_call ''call_1'', alerts_call ''call_2'']) \<and>
   list_all2 (\<lambda>tc n. call_name tc = Inr n) [alerts_call ''call_1'', alerts_call ''call_2'']
     [JStr ''get_current_alerts'', JStr ''get_current_alerts'']"
proof -
  have n: "tool_calls_made \<lparr>response = JStr ''There are no active alerts.'',
           tool_calls_made = 2,
           tools_used = [JStr ''get_current_alerts'', JStr ''get_current_alerts''],
           conversation_history =
             [turn ''system'' standard_system_message, turn ''user'' ''Any alerts?'', first_message,
              tool_turn tool_backend (JStr ''call_1'') (JList []),
              tool_turn tool_backend (JStr ''call_2'') (JList [])]\<rparr> \<noteq> 0"
    by simp
  from done_result_after_tools [OF tool_run n]
  obtain message tool_calls where
    "py_item message ''tool_calls'' = Inr (JList tool_calls)"
    "length tool_calls = 2"
    by auto
  then show ?thesis
    by (simp add: tool_run first_message_def py_item_def call_name_def alerts_call_def exc_bind_def)
qed

theorem distinct_tool_names_counterexample:
  "tool_calls_made (projr (fst (chat_with_tools tool_backend tool_agent ''Any alerts?'' None []))) = 2 \<and>
   tools_used (projr (fst (chat_with_tools tool_backend tool_agent ''Any alerts?'' None []))) =
     [JStr ''get_current_alerts'', JStr ''get_current_alerts''] \<and>
   \<not> distinct (tools_used (projr (fst (chat_with_tools tool_backend tool_agent ''Any alerts?'' None []))))"
  by (simp add: tool_run)

section \<open>The shape of the returned conversation\<close>

lemma role_turn: "role_of (turn r txt) = JStr r"
  by (simp add: role_of_def turn_def dict_get_def)

text \<open>
  C8 (amended). Every conversation the orchestrator returns is the system turn it
  builds, then the caller's history as it was supplied, then the new user turn and,
  after a tool round-trip, the model's invocation turn followed by the tool turns that
  answer its requests one by one. It has exactly one system turn, the first one,
  provided that no turn of the supplied history and no turn added after the user turn
  is a system turn; a returned conversation that is supplied back as history is kept
  turn by turn, its own system turn included.
\<close>

theorem conversation_shape:
  assumes "chat_with_tools e a user_message history log = (Inr res, log')"
  shows "\<exists>system_message extra.
           conversation_history res =
             [turn ''system'' system_message] @ (case history of None \<Rightarrow> [] | Some h \<Rightarrow> h) @
             [turn ''user'' user_message] @ extra \<and>
           (tool_calls_made res = 0 \<longrightarrow> extra = []) \<and>
           (tool_calls_made res \<noteq> 0 \<longrightarrow>
              (\<exists>message tool_calls tool_results.
                 extra = message # tool_results \<and>
                 py_item message ''tool_calls'' = Inr (JList tool_calls) \<and>
                 answers e tool_calls tool_results)) \<and>
           (list_all (\<lambda>u. role_of u \<noteq> JStr ''system'')
              ((case history of None \<Rightarrow> [] | Some h \<Rightarrow> h) @ extra) \<longrightarrow>
            one_system_first (conversation_history res))"
  using assms
proof (cases rule: chat_success_cases)
  case (plain system_message log1 resp response_data message)
  show ?thesis
    apply (rule exI [of _ system_message], rule exI [of _ "[]"])
    using plain
    by (simp add: build_messages_def one_system_first_def role_turn)
next
  case (tools resp response_data message tool_calls tool_results log2 resp2 final_data final_message)
  show ?thesis
    apply (rule exI [of _ standard_system_message], rule exI [of _ "message # tool_results"])
    using tools
    by (simp add: build_messages_def one_system_first_def role_turn)
qed

lemma thanks_no_keyword: "\<not> any_in hospital_keywords (lower ''Thanks'')"
  by (simp add: any_in_def hospital_keywords_def lower_def lower_char_def)

lemma round_trip_run:
  "chat_with_tools chatty default_agent ''Thanks''
     (Some [turn ''system'' standard_system_message, turn ''user'' ''Hello''])
     [openrouter_request default_agent
         [(''model'', JStr ''tngtech/deepseek-r1t2-chimera:free''),
          (''messages'', JList [turn ''system'' standard_system_message, turn ''user'' ''Hello''])]] =
     (Inr \<lparr>response = JStr ''Hello! How can I help?'',
           tool_calls_made = 0,
           tools_used = [],
           conversation_history =
             [turn ''system'' standard_system_message, turn ''system'' standard_system_message,
              turn ''user'' ''Hello'', turn ''user'' ''Thanks'']\<rparr>,
      [openrouter_request default_agent
         [(''model'', JStr ''tngtech/deepseek-r1t2-chimera:free''),
          (''messages'', JList [turn ''system'' standard_system_message, turn ''user'' ''Hello''])],
       openrouter_request default_agent
         [(''model'', JStr ''tngtech/deepseek-r1t2-chimera:free''),
          (''messages'', JList
             [turn ''system'' standard_system_message, turn ''system'' standard_system_message,
              turn ''user'' ''Hello'', turn ''user'' ''Thanks''])]])"
  by (simp add: run_defs thanks_no_keyword chatty_def llm_reply_def default_agent_def SmartHospitalAgent_def)

theorem conversation_shape_witness:
  "chat_with_tools chatty default_agent ''Thanks''
     (Some (conversation_history (projr (fst (chat_with_tools chatty default_agent ''Hello'' None [])))))
     (snd (chat_with_tools chatty default_agent ''Hello'' None [])) =
     (Inr \<lparr>response = JStr ''Hello! How can I help?'',
           tool_calls_made = 0,
           tools_used = [],
           conversation_history =
             [turn ''system'' standard_system_message] @
             [turn ''system'' standard_system_message, turn ''user'' ''Hello''] @
             [turn ''user'' ''Thanks'']\<rparr>,
      snd (chat_with_tools chatty default_agent ''Thanks''
             (Some (conversation_history (projr (fst (chat_with_tools chatty default_agent ''Hello'' None [])))))
             (snd (chat_with_tools chatty default_agent ''Hello'' None [])))) \<and>
   one_system_first (conversation_history (projr (fst (chat_with_tools chatty default_agent ''Hello'' None []))))"
proof -
  from conversation_shape [OF plain_run]
  have "one_system_first (conversation_history (projr (fst (chat_with_tools chatty default_agent ''Hello'' None []))))"
    by (auto simp: plain_run)
  then show ?thesis
    by (simp add: plain_run round_trip_run)
qed

theorem one_system_turn_counterexample:
  "\<not> one_system_first
       (conversation_history (projr (fst
          (chat_with_tools chatty default_agent ''Thanks''
             (Some (conversation_history (projr (fst (chat_with_tools chatty default_agent ''Hello'' None [])))))
             (snd (chat_with_tools chatty default_agent ''Hello'' None []))))))"
  by (simp add: plain_run round_trip_run one_system_first_def role_turn)

section \<open>The second submission\<close>

lemma bind_keeps_log:
  assumes "\<And>v. adds_at_most 0 (f v)"
  shows "snd (io_bind m f log) = snd (m log)"
proof (cases "m log")
  case (Pair x l)
  show ?thesis
  proof (cases x)
    case (Inl b)
    with Pair show ?thesis by (simp add: io_bind_def)
  next
    case (Inr v)
    from assms [of v] have "snd (f v l) = l"
      by (auto simp: adds_at_most_def)
    with Pair Inr show ?thesis by (simp add: io_bind_def)
  qed
qed

lemma tools_payload:
  assumes "use_function_calling a"
  shows "build_payload a messages =
           [(''model'', JStr (model a)), (''messages'', JList messages),
            (''tools'', JList (tools a)), (''tool_choice'', JStr ''auto'')]"
    and "dict_set (build_payload a messages) ''messages'' v =
           [(''model'', JStr (model a)), (''messages'', v),
            (''tools'', JList (tools a)), (''tool_choice'', JStr ''auto'')]"
  using assms by (simp_all add: build_payload_def Let_def dict_set_def)

text \<open>
  C6 (amended). When function calling is enabled, the first response requests tool
  invocations and the gateway resolves them, the second submission to the LLM backend
  is the last request of the run: it carries the extended conversation (the original
  turns, the model's invocation turn and every tool-result turn) together with the
  same tool schemas and the same automatic tool choice as the first submission. Between
  the two submissions lie the hospital calls of the resolution, at most one per
  invocation.
\<close>

theorem second_submission:
  assumes ufc: "use_function_calling a"
    and msgs: "messages = [turn ''system'' standard_system_message] @
                 (case history of None \<Rightarrow> [] | Some h \<Rightarrow> h) @ [turn ''user'' user_message]"
    and first: "first_request = openrouter_request a
                 [(''model'', JStr (model a)), (''messages'', JList messages),
                  (''tools'', JList (tools a)), (''tool_choice'', JStr ''auto'')]"
    and resp: "respond e log first_request = Inr resp"
    and ok: "http_error resp = None"
    and reply: "json_result resp = Inr reply"
    and message: "first_choice_message reply = Inr message"
    and calls: "py_item message ''tool_calls'' = Inr (JList tool_calls)"
    and ne: "tool_calls \<noteq> []"
    and resolved: "resolve_tool_calls e a tool_calls [] (log @ [first_request]) = (Inr tool_results, log2)"
  shows "snd (chat_with_tools e a user_message history log) =
           log2 @ [openrouter_request a
                     [(''model'', JStr (model a)),
                      (''messages'', JList (messages @ [message] @ tool_results)),
                      (''tools'', JList (tools a)), (''tool_choice'', JStr ''auto'')]] \<and>
         (\<exists>calls. log2 = log @ [first_request] @ calls \<and> length calls \<le> length tool_calls)"
proof -
  let ?M = "build_messages standard_system_message (case history of None \<Rightarrow> [] | Some h \<Rightarrow> h) user_message"
  have M: "?M = messages"
    by (simp add: msgs build_messages_def)
  have P: "build_payload a messages =
           [(''model'', JStr (model a)), (''messages'', JList messages),
            (''tools'', JList (tools a)), (''tool_choice'', JStr ''auto'')]"
    using ufc by (rule tools_payload)
  have f1: "fetch_json e first_request log = (Inr reply, log @ [first_request])"
    using resp ok reply
    by (simp add: fetch_json_def io_bind_def io_pure_def http_send_def raise_for_status_def)
  from calls obtain d where d: "message = JDict d" and mv: "map_of d ''tool_calls'' = Some (JList tool_calls)"
    by (cases message) (auto simp: py_item_def split: option.splits)
  have w: "wants_tools a message = Inr True"
    using ufc ne by (simp add: wants_tools_def d py_get_def dict_get_def mv exc_bind_def py_truthy_def)
  have it: "exc_bind (py_item message ''tool_calls'') py_iter = Inr tool_calls"
    by (simp add: calls exc_bind_def py_iter_def)
  let ?second = "openrouter_request a
                     [(''model'', JStr (model a)),
                      (''messages'', JList (messages @ [message] @ tool_results)),
                      (''tools'', JList (tools a)), (''tool_choice'', JStr ''auto'')]"
  have tail: "snd (io_bind (fetch_json e ?second) (\<lambda>final_data.
         io_bind (io_pure (exc_bind (first_choice_message final_data) (\<lambda>m. py_item m ''content''))) (\<lambda>answer.
         io_bind (io_pure (call_names tool_calls)) (\<lambda>used.
           io_pure (Inr \<lparr>response = answer,
                         tool_calls_made = length tool_results,
                         tools_used = used,
                         conversation_history = messages @ [message] @ tool_results\<rparr>)))) log2) =
       log2 @ [?second]"
    by (subst bind_keeps_log) (intro adds_after_pure adds_pure, rule fetch_json_log)
  have "snd (run_model e a messages (build_payload a messages) log) = log2 @ [?second]"
    using f1 message w it resolved tail ufc
    unfolding run_model_def P first [symmetric]
    by (simp add: io_bind_def io_pure_def dict_set_def)
  then have one: "snd (chat_with_tools e a user_message history log) = log2 @ [?second]"
    using ufc by (simp add: chat_with_tools_def system_message_tools M)
  from adds_resolve [of tool_calls e a "[]"] obtain ext where
    "snd (resolve_tool_calls e a tool_calls [] (log @ [first_request])) = (log @ [first_request]) @ ext"
    and "length ext \<le> length tool_calls"
    unfolding adds_at_most_def by blast
  with resolved have "log2 = log @ [first_request] @ ext \<and> length ext \<le> length tool_calls"
    by simp
  with one show ?thesis
    by blast
qed

lemma resolve_alerts:
  "resolve_tool_calls tool_backend tool_agent [alerts_call ''call_1'', alerts_call ''call_2''] []
     [openrouter_request tool_agent
         [(''model'', JStr (model tool_agent)),
          (''messages'', JList [turn ''system'' standard_system_message, turn ''user'' ''Any alerts?'']),
          (''tools'', JList (tools tool_agent)),
          (''tool_choice'', JStr ''auto'')]] =
     (Inr [tool_turn tool_backend (JStr ''call_1'') (JList []),
           tool_turn tool_backend (JStr ''call_2'') (JList [])],
      [openrouter_request tool_agent
         [(''model'', JStr (model tool_agent)),
          (''messages'', JList [turn ''system'' standard_system_message, turn ''user'' ''Any alerts?'']),
          (''tools'', JList (tools tool_agent)),
          (''tool_choice'', JStr ''auto'')],
       \<lparr>http_method = ''GET'', url = ''https://dt-agent-api.onrender.com//alerts/'',
         params = JNull, json_body = JNull, data = JNull, headers = []\<rparr>,
       \<lparr>http_method = ''GET'', url = ''https://dt-agent-api.onrender.com//alerts/'',
         params = JNull, json_body = JNull, data = JNull, headers = []\<rparr>])"
  by (simp add: run_defs tool_backend_def llm_reply_def tool_agent_def SmartHospitalAgent_def
        alerts_call_def call_name_def call_arguments_def
        json_loads_def execute_hospital_function_def make_hospital_api_call_def
        hospital_request_def tool_turn_def)

theorem second_submission_witness:
  "use_function_calling tool_agent \<and>
   respond tool_backend []
     (openrouter_request tool_agent
         [(''model'', JStr (model tool_agent)),
          (''messages'', JList [turn ''system'' standard_system_message, turn ''user'' ''Any alerts?'']),
          (''tools'', JList (tools tool_agent)),
          (''tool_choice'', JStr ''auto'')]) = Inr (llm_reply first_message) \<and>
   py_item first_message ''tool_calls'' = Inr (JList [alerts_call ''call_1'', alerts_call ''call_2'']) \<and>
   snd (chat_with_tools tool_backend tool_agent ''Any alerts?'' None []) =
     [openrouter_request tool_agent
         [(''model'', JStr (model tool_agent)),
          (''messages'', JList [turn ''system'' standard_system_message, turn ''user'' ''Any alerts?'']),
          (''tools'', JList (tools tool_agent)),
          (''tool_choice'', JStr ''auto'')],
       \<lparr>http_method = ''GET'', url = ''https://dt-agent-api.onrender.com//alerts/'',
         params = JNull, json_body = JNull, data = JNull, headers = []\<rparr>,
       \<lparr>http_method = ''GET'', url = ''https://dt-agent-api.onrender.com//alerts/'',
         params = JNull, json_body = JNull, data = JNull, headers = []\<rparr>,
       openrouter_request tool_agent
         [(''model'', JStr (model tool_agent)),
          (''messages'', JList
             [turn ''system'' standard_system_message, turn ''user'' ''Any alerts?'', first_message,
              tool_turn tool_backend (JStr ''call_1'') (JList []),
              tool_turn tool_backend (JStr ''call_2'') (JList [])]),
          (''tools'', JList (tools tool_agent)),
          (''tool_choice'', JStr ''auto'')]]"
proof -
  let ?first = "openrouter_request tool_agent
         [(''model'', JStr (model tool_agent)),
          (''messages'', JList [turn ''system'' standard_system_message, turn ''user'' ''Any alerts?'']),
          (''tools'', JList (tools tool_agent)),
          (''tool_choice'', JStr ''auto'')]"
  have ufc: "use_function_calling tool_agent"
    by (simp add: tool_agent_def SmartHospitalAgent_def)
  have msgs: "[turn ''system'' standard_system_message, turn ''user'' ''Any alerts?''] =
      [turn ''system'' standard_system_message] @ (case None of None \<Rightarrow> [] | Some h \<Rightarrow> h) @
      [turn ''user'' ''Any alerts?'']"
    by simp
  have resp: "respond tool_backend [] ?first = Inr (llm_reply first_message)"
    by (simp add: tool_backend_def openrouter_request_def tool_agent_def SmartHospitalAgent_def)
  have ok: "http_error (llm_reply first_message) = None"
    and reply: "json_result (llm_reply first_message) =
                  Inr (JDict [(''choices'', JList [JDict [(''message'', first_message)]])])"
    by (simp_all add: llm_reply_def)
  have message: "first_choice_message (JDict [(''choices'', JList [JDict [(''message'', first_message)]])]) =
                   Inr first_message"
    by (simp add: first_choice_message_def exc_bind_def py_item_def py_first_def)
  have calls: "py_item first_message ''tool_calls'' = Inr (JList [alerts_call ''call_1'', alerts_call ''call_2''])"
    by (simp add: first_message_def py_item_def)
  have ne: "[alerts_call ''call_1'', alerts_call ''call_2''] \<noteq> []"
    by simp
  have resolved: "resolve_tool_calls tool_backend tool_agent [alerts_call ''call_1'', alerts_call ''call_2''] []
     ([] @ [?first]) =
     (Inr [tool_turn tool_backend (JStr ''call_1'') (JList []),
           tool_turn tool_backend (JStr ''call_2'') (JList [])],
      [?first,
       \<lparr>http_method = ''GET'', url = ''https://dt-agent-api.onrender.com//alerts/'',
         params = JNull, json_body = JNull, data = JNull, headers = []\<rparr>,
       \<lparr>http_method = ''GET'', url = ''https://dt-agent-api.onrender.com//alerts/'',
         params = JNull, json_body = JNull, data = JNull, headers = []\<rparr>])"
    using resolve_alerts by simp
  from second_submission [OF ufc msgs refl resp ok reply message calls ne resolved]
  show ?thesis
    using ufc resp calls by simp
qed

theorem second_submission_counterexample:
  "length (snd (chat_with_tools tool_backend tool_agent ''Any alerts?'' None [])) = 4 \<and>
   url (snd (chat_with_tools tool_backend tool_agent ''Any alerts?'' None []) ! 3) =
     openrouter_url tool_agent \<and>
   carries_tools (snd (chat_with_tools tool_backend tool_agent ''Any alerts?'' None []) ! 3)"
  by (simp add: tool_run carries_tools_def openrouter_request_def)



section \<open>Mode selection\<close>







end
